theory Spec2Isabelle
  imports Main
begin

section \<open>JavaScript values used by sepa.js\<close>

text \<open>
  A JavaScript string is modelled as a \<^typ>\<open>string\<close>; a \<^typ>\<open>char\<close> stands for one
  UTF-16 code unit below 256 and \<open>charCodeAt\<close> is \<^term>\<open>of_char :: char \<Rightarrow> nat\<close>.
  \<open>NaN\<close> is \<^term>\<open>None\<close> wherever the code computes with the result of \<open>parseInt\<close>.
\<close>

definition charCodeAt :: "char \<Rightarrow> nat" where
  "charCodeAt c = of_char c"

definition digit_char :: "nat \<Rightarrow> char" where
  "digit_char d = char_of (48 + d)"

text \<open>\<open>Number.prototype.toString\<close> on a non-negative integer: its decimal digits.\<close>

fun string_of_nat :: "nat \<Rightarrow> string" where
  "string_of_nat n =
     (if n < 10 then [digit_char n] else string_of_nat (n div 10) @ [digit_char (n mod 10)])"

definition string_of_int :: "int \<Rightarrow> string" where
  "string_of_int i = (if i < 0 then CHR ''-'' # string_of_nat (nat (- i)) else string_of_nat (nat i))"

text \<open>String concatenation with a number that may be \<open>NaN\<close>.\<close>

definition string_of_number :: "int option \<Rightarrow> string" where
  "string_of_number v = (case v of None \<Rightarrow> ''NaN'' | Some i \<Rightarrow> string_of_int i)"

text \<open>
  \<open>String.prototype.substr(start, length)\<close>: a negative start counts from the end, a start
  beyond the end gives the empty string, a missing length (\<^term>\<open>None\<close>) reads to the end.
\<close>

definition substr :: "string \<Rightarrow> int \<Rightarrow> nat option \<Rightarrow> string" where
  "substr s start len =
     (let n = int (length s);
          b = (if start < 0 then max (n + start) 0 else min start n);
          rest = drop (nat b) s
      in case len of None \<Rightarrow> rest | Some l \<Rightarrow> take l rest)"

text \<open>\<open>str.indexOf(p) === 0\<close>: the string starts with \<open>p\<close>.\<close>

definition starts_with :: "string \<Rightarrow> string \<Rightarrow> bool" where
  "starts_with p s = (take (length p) s = p)"

definition is_digit :: "char \<Rightarrow> bool" where
  "is_digit c = (48 \<le> charCodeAt c \<and> charCodeAt c \<le> 57)"

text \<open>White space as \<open>trim\<close> and \<open>parseInt\<close> skip it (code units below 256).\<close>

definition is_space :: "char \<Rightarrow> bool" where
  "is_space c = (charCodeAt c \<in> {9, 10, 11, 12, 13, 32, 160})"

text \<open>
  \<open>parseInt(str, 10)\<close>: leading white space is skipped, one sign is read, then the longest
  run of decimal digits; with no digit the result is \<open>NaN\<close>.
\<close>

fun digits_value :: "int \<Rightarrow> string \<Rightarrow> int" where
  "digits_value acc [] = acc"
| "digits_value acc (c # cs) = digits_value (acc * 10 + (int (charCodeAt c) - 48)) cs"

definition parse_digits :: "string \<Rightarrow> int option" where
  "parse_digits s =
     (let ds = takeWhile is_digit s in if ds = [] then None else Some (digits_value 0 ds))"

definition parseInt :: "string \<Rightarrow> int option" where
  "parseInt str =
     (case dropWhile is_space str of
        [] \<Rightarrow> None
      | c # cs \<Rightarrow>
          if c = CHR ''-'' then map_option uminus (parse_digits cs)
          else if c = CHR ''+'' then parse_digits cs
          else parse_digits (c # cs))"

section \<open>Checksum engine\<close>

text \<open>
  \<open>_replaceChars\<close>: the loop appends to \<open>res\<close> the two digits of a letter (A=10, ..., Z=35,
  lower case alike), a digit as it is, and nothing for any other character.
\<close>

fun replaceChars_loop :: "string \<Rightarrow> string \<Rightarrow> string" where
  "replaceChars_loop res [] = res"
| "replaceChars_loop res (c # cs) =
     (let cc = charCodeAt c in
      replaceChars_loop
        (if 65 \<le> cc \<and> cc \<le> 90 then res @ string_of_nat (cc - 55)
         else if 97 \<le> cc \<and> cc \<le> 122 then res @ string_of_nat (cc - 87)
         else if 48 \<le> cc \<and> cc \<le> 57 then res @ [c]
         else res) cs)"

definition replaceChars :: "string \<Rightarrow> string" where
  "replaceChars str = replaceChars_loop [] str"

text \<open>
  \<open>_txtMod97\<close>: \<open>res = (res * 10 + parseInt(str[i], 10)) % 97\<close> for each character; once a
  character is not a digit the result is \<open>NaN\<close> and stays so.
\<close>

fun txtMod97_loop :: "int option \<Rightarrow> string \<Rightarrow> int option" where
  "txtMod97_loop res [] = res"
| "txtMod97_loop res (c # cs) =
     txtMod97_loop
       (case (res, parseInt [c]) of
          (Some r, Some d) \<Rightarrow> Some ((r * 10 + d) mod 97)
        | _ \<Rightarrow> None) cs"

definition txtMod97 :: "string \<Rightarrow> int option" where
  "txtMod97 str = txtMod97_loop (Some 0) str"

definition validateIBAN :: "string \<Rightarrow> bool" where
  "validateIBAN iban =
     (let ibrev = substr iban 4 None @ substr iban 0 (Some 4)
      in txtMod97 (replaceChars ibrev) = Some 1)"

definition checksumIBAN :: "string \<Rightarrow> string" where
  "checksumIBAN iban =
     (let ibrev = substr iban 4 None @ substr iban 0 (Some 2) @ ''00'';
          md = txtMod97 (replaceChars ibrev)
      in substr iban 0 (Some 2)
         @ substr (''0'' @ string_of_number (map_option (\<lambda>m. 98 - m) md)) (- 2) (Some 2)
         @ substr iban 4 None)"

definition validateCreditorID :: "string \<Rightarrow> bool" where
  "validateCreditorID cid =
     (let cidrev = substr cid 7 None @ substr cid 0 (Some 4)
      in txtMod97 (replaceChars cidrev) = Some 1)"

definition checksumCreditorID :: "string \<Rightarrow> string" where
  "checksumCreditorID cid =
     (let cidrev = substr cid 7 None @ substr cid 0 (Some 2) @ ''00'';
          md = txtMod97 (replaceChars cidrev)
      in substr cid 0 (Some 2)
         @ substr (''0'' @ string_of_number (map_option (\<lambda>m. 98 - m) md)) (- 2) (Some 2)
         @ substr cid 4 None)"

text \<open>
  The upper-case form of a string, for the comparison of \<open>validateIBAN\<close> on both forms:
  each of the letters a-z becomes the corresponding letter A-Z, every other character
  stays. (The source has no such function; this one is the reference of the comparison.)
\<close>

definition upper_char :: "char \<Rightarrow> char" where
  "upper_char c =
     (if 97 \<le> charCodeAt c \<and> charCodeAt c \<le> 122 then char_of (charCodeAt c - 32) else c)"

definition uppercase :: "string \<Rightarrow> string" where
  "uppercase s = map upper_char s"

section \<open>Dynamic values, errors, dates and numbers\<close>

text \<open>
  The values that the assertions and the XML helper receive without a fixed type: \<open>null\<close>,
  a string, or a non-negative integer (a length or a count).
\<close>

datatype jsval = Null | Str string | Num nat

definition truthy :: "jsval \<Rightarrow> bool" where
  "truthy v = (case v of Null \<Rightarrow> False | Str s \<Rightarrow> s \<noteq> [] | Num n \<Rightarrow> n \<noteq> 0)"

definition js_toString :: "jsval \<Rightarrow> string" where
  "js_toString v = (case v of Null \<Rightarrow> ''null'' | Str s \<Rightarrow> s | Num n \<Rightarrow> string_of_nat n)"

text \<open>The \<open>length\<close> property: of a string its length, of a number \<open>undefined\<close>.\<close>

definition js_length :: "jsval \<Rightarrow> nat option" where
  "js_length v = (case v of Str s \<Rightarrow> Some (length s) | _ \<Rightarrow> None)"

definition opt_val :: "string option \<Rightarrow> jsval" where
  "opt_val v = (case v of None \<Rightarrow> Null | Some s \<Rightarrow> Str s)"

definition opt_toString :: "nat option \<Rightarrow> string" where
  "opt_toString v = (case v of None \<Rightarrow> ''null'' | Some n \<Rightarrow> string_of_nat n)"

definition bool_toString :: "bool \<Rightarrow> string" where
  "bool_toString b = (if b then ''true'' else ''false'')"

definition dquote :: string where
  "dquote = [CHR 0x22]"

definition squote :: string where
  "squote = [CHR 0x27]"

text \<open>\<open>Array.prototype.join\<close> and \<open>String.prototype.split\<close> on one separator character.\<close>

fun join :: "string \<Rightarrow> string list \<Rightarrow> string" where
  "join sep [] = []"
| "join sep [x] = x"
| "join sep (x # y # ys) = x @ sep @ join sep (y # ys)"

fun split_loop :: "char \<Rightarrow> string \<Rightarrow> string \<Rightarrow> string list" where
  "split_loop sep cur [] = [cur]"
| "split_loop sep cur (c # cs) =
     (if c = sep then cur # split_loop sep [] cs else split_loop sep (cur @ [c]) cs)"

definition split :: "char \<Rightarrow> string \<Rightarrow> string list" where
  "split sep s = split_loop sep [] s"

definition trim :: "string \<Rightarrow> string" where
  "trim s = rev (dropWhile is_space (rev (dropWhile is_space s)))"

text \<open>
  What a \<open>throw\<close> carries: \<open>new Error(msg)\<close>, the structured error of the counterparty
  check (supplier name, invalid parameters, message), and the two errors of the runtime:
  a property read on \<open>null\<close> or \<open>undefined\<close>, and \<open>toISOString\<close> on an invalid date.
\<close>

datatype error =
    Error string
  | InvalidSupplierError string "string list" string
  | TypeError
  | RangeError

text \<open>Statements in sequence: the first one that throws ends the function.\<close>

fun run_checks :: "(error + unit) list \<Rightarrow> error + unit" where
  "run_checks [] = Inr ()"
| "run_checks (c # cs) = (case c of Inl e \<Rightarrow> Inl e | Inr _ \<Rightarrow> run_checks cs)"

text \<open>
  A \<open>Date\<close> is either the invalid date (its \<open>getTime()\<close> is \<open>NaN\<close>) or a valid one, of
  which the model keeps what \<open>toISOString()\<close> returns. A field that holds no date yet is
  \<^term>\<open>None\<close>.
\<close>

datatype jsdate = InvalidDate | ValidDate string

definition toISOString :: "jsdate option \<Rightarrow> error + string" where
  "toISOString dt =
     (case dt of
        None \<Rightarrow> Inl TypeError
      | Some InvalidDate \<Rightarrow> Inl RangeError
      | Some (ValidDate s) \<Rightarrow> Inr s)"

text \<open>
  Amounts and control sums are JavaScript numbers. Their IEEE-754 arithmetic is not
  modelled: the type \<open>'n\<close> of numbers and the operations that the code applies to them
  are parameters of the model. \<open>num_min_amount\<close> and \<open>num_max_amount\<close> are the literals
  \<open>0.01\<close> and \<open>999999999.99\<close>; \<open>num_eq\<close> is \<open>==\<close> and \<open>num_less\<close> is \<open><\<close>.
\<close>

record 'n number_ops =
  num_zero :: 'n
  num_add :: "'n \<Rightarrow> 'n \<Rightarrow> 'n"
  num_less :: "'n \<Rightarrow> 'n \<Rightarrow> bool"
  num_eq :: "'n \<Rightarrow> 'n \<Rightarrow> bool"
  num_of_int :: "int \<Rightarrow> 'n"
  num_min_amount :: 'n
  num_max_amount :: 'n
  num_toString :: "'n \<Rightarrow> string"
  num_toFixed2 :: "'n \<Rightarrow> string"

text \<open>
  For evaluating the model on examples: numbers that are a whole count of hundredths,
  as the two-decimal amounts of a payment file are, with exact decimal arithmetic.
\<close>

definition two_digits :: "nat \<Rightarrow> string" where
  "two_digits n = [digit_char (n div 10 mod 10), digit_char (n mod 10)]"

definition hundredths_toFixed2 :: "int \<Rightarrow> string" where
  "hundredths_toFixed2 c =
     (if c < 0 then ''-'' else []) @ string_of_nat (nat \<bar>c\<bar> div 100) @ ''.''
       @ two_digits (nat \<bar>c\<bar> mod 100)"

definition hundredths_toString :: "int \<Rightarrow> string" where
  "hundredths_toString c =
     (let a = nat \<bar>c\<bar>; sign = (if c < 0 then ''-'' else [])
      in if a mod 100 = 0 then sign @ string_of_nat (a div 100)
         else if a mod 10 = 0
           then sign @ string_of_nat (a div 100) @ ''.'' @ [digit_char (a mod 100 div 10)]
           else sign @ string_of_nat (a div 100) @ ''.'' @ two_digits (a mod 100))"

definition hundredths :: "int number_ops" where
  "hundredths =
     \<lparr> num_zero = 0, num_add = (+), num_less = (<), num_eq = (=),
       num_of_int = (\<lambda>k. 100 * k), num_min_amount = 1, num_max_amount = 99999999999,
       num_toString = hundredths_toString, num_toFixed2 = hundredths_toFixed2 \<rparr>"

section \<open>Process-wide configuration\<close>

record globals =
  ID_SEPARATOR :: string
  VALIDATIONS_ENABLED :: bool

definition initial_globals :: globals where
  "initial_globals = \<lparr> ID_SEPARATOR = ''.'', VALIDATIONS_ENABLED = True \<rparr>"

definition setIDSeparator :: "string \<Rightarrow> globals \<Rightarrow> globals" where
  "setIDSeparator seperator g = g\<lparr> ID_SEPARATOR := seperator \<rparr>"

definition enableValidations :: "bool \<Rightarrow> globals \<Rightarrow> globals" where
  "enableValidations enabled g = g\<lparr> VALIDATIONS_ENABLED := enabled \<rparr>"

definition DEFAULT_PAIN_FORMAT :: string where
  "DEFAULT_PAIN_FORMAT = ''pain.008.001.02''"

definition SEPATypes :: "(string \<times> string) list" where
  "SEPATypes =
     [ (''pain.001.001.02'', ''pain.001.001.02''),
       (''pain.001.003.02'', ''pain.001.003.02''),
       (''pain.001.001.03'', ''CstmrCdtTrfInitn''),
       (''pain.001.003.03'', ''CstmrCdtTrfInitn''),
       (''pain.008.001.01'', ''pain.008.001.01''),
       (''pain.008.003.01'', ''pain.008.003.01''),
       (''pain.008.001.02'', ''CstmrDrctDbtInitn''),
       (''pain.008.003.02'', ''CstmrDrctDbtInitn'') ]"

definition getPainXMLVersion :: "string \<Rightarrow> int option" where
  "getPainXMLVersion painFormat =
     (let inc = (if starts_with ''pain.008'' painFormat then 1 else 0)
      in map_option (\<lambda>v. v + inc) (parseInt (substr painFormat (- 2) None)))"

section \<open>Entity model\<close>

text \<open>
  The classes are records; a field \<open>f\<close> of \<open>SepaTransaction\<close>, \<open>SepaPaymentInfo\<close>,
  \<open>SepaGroupHeader\<close> and \<open>SepaDocument\<close> is \<open>tx_f\<close>, \<open>pi_f\<close>, \<open>gh_f\<close> and \<open>doc_f\<close>.
  The fields \<open>creditorName\<close>, \<open>creditorStreet\<close>, \<open>creditorCity\<close>, \<open>creditorCountry\<close>,
  \<open>creditorIBAN\<close> and \<open>creditorBIC\<close> are the fields \<open>Name\<close>, ..., \<open>BIC\<close> of the party
  \<open>creditor\<close>, and alike for the debtor, so that \<open>this[pullFrom + 'Name']\<close> is
  \<open>Name (pull pullFrom this)\<close>. A field that the class initialises to \<open>null\<close> or leaves
  undefined is an option.

  The arrays \<open>_payments\<close> and \<open>_paymentInfo\<close> hold references to objects. The records of
  a payment block and of a document therefore take the type of the array elements as a
  parameter: with references (\<open>ref\<close>) the record is the object as it lies in the heap,
  with the records of the children it is the tree that normalization, validation and
  rendering read from the object.
\<close>

type_synonym ref = nat

record party =
  Name :: string
  Street :: "string option"
  City :: "string option"
  Country :: "string option"
  IBAN :: string
  BIC :: string

definition empty_party :: party where
  "empty_party =
     \<lparr> Name = [], Street = None, City = None, Country = None, IBAN = [], BIC = [] \<rparr>"

datatype TransactionTypes = DirectDebit | Transfer

definition TransactionTypes_name :: "TransactionTypes \<Rightarrow> string" where
  "TransactionTypes_name ty = (case ty of DirectDebit \<Rightarrow> ''DrctDbtTxInf'' | Transfer \<Rightarrow> ''CdtTrfTxInf'')"

definition PaymentInfoTypes_DirectDebit :: string where
  "PaymentInfoTypes_DirectDebit = ''DD''"

definition PaymentInfoTypes_Transfer :: string where
  "PaymentInfoTypes_Transfer = ''TRF''"

record 'n SepaTransaction =
  tx_painFormat :: string
  tx_type :: TransactionTypes
  tx_id :: string
  tx_end2endId :: string
  tx_currency :: string
  tx_amount :: 'n
  tx_ammendment :: string
  tx_purposeCode :: "string option"
  tx_mandateId :: string
  tx_mandateSignatureDate :: "jsdate option"
  tx_debtor :: party
  tx_remittanceInfo :: string
  tx_creditor :: party
  tx_overrideReference :: "string option"

definition new_SepaTransaction :: "'n number_ops \<Rightarrow> string \<Rightarrow> 'n SepaTransaction" where
  "new_SepaTransaction ops painFormat =
     \<lparr> tx_painFormat = painFormat,
       tx_type = (if starts_with ''pain.001'' painFormat then Transfer else DirectDebit),
       tx_id = [], tx_end2endId = [], tx_currency = ''EUR'', tx_amount = num_zero ops,
       tx_ammendment = [], tx_purposeCode = None, tx_mandateId = [],
       tx_mandateSignatureDate = None, tx_debtor = empty_party, tx_remittanceInfo = [],
       tx_creditor = empty_party, tx_overrideReference = None \<rparr>"

record ('n, 't) SepaPaymentInfo_of =
  pi_painFormat :: string
  pi_payments :: "'t list"
  pi_id :: string
  pi_method :: string
  pi_batchBooking :: bool
  pi_grouping :: string
  pi_controlSum :: 'n
  pi_localInstrumentation :: string
  pi_sequenceType :: string
  pi_collectionDate :: "jsdate option"
  pi_requestedExecutionDate :: "jsdate option"
  pi_creditorId :: string
  pi_creditor :: party
  pi_creditorMemberId :: string
  pi_debtorId :: string
  pi_debtor :: party
  pi_debtorMemberId :: string
  pi_instructionPriority :: string
  pi_categoryPurpose :: string
  pi_overrideReference :: string

type_synonym 'n SepaPaymentInfo = "('n, 'n SepaTransaction) SepaPaymentInfo_of"

definition new_SepaPaymentInfo :: "'n number_ops \<Rightarrow> string \<Rightarrow> ('n, 't) SepaPaymentInfo_of" where
  "new_SepaPaymentInfo ops painFormat =
     \<lparr> pi_painFormat = painFormat, pi_payments = [], pi_id = [],
       pi_method = (if starts_with ''pain.001'' painFormat then PaymentInfoTypes_Transfer
                    else PaymentInfoTypes_DirectDebit),
       pi_batchBooking = False, pi_grouping = ''MIXD'', pi_controlSum = num_zero ops,
       pi_localInstrumentation = ''CORE'', pi_sequenceType = ''FRST'',
       pi_collectionDate = None, pi_requestedExecutionDate = None,
       pi_creditorId = [], pi_creditor = empty_party, pi_creditorMemberId = [],
       pi_debtorId = [], pi_debtor = empty_party, pi_debtorMemberId = [],
       pi_instructionPriority = ''NORM'', pi_categoryPurpose = [],
       pi_overrideReference = [] \<rparr>"

record 'n SepaGroupHeader =
  gh_painFormat :: string
  gh_id :: string
  gh_created :: "jsdate option"
  gh_transactionCount :: nat
  gh_initiatorName :: string
  gh_cifNumber :: string
  gh_cucNumber :: string
  gh_controlSum :: 'n
  gh_batchBooking :: bool
  gh_grouping :: string

definition new_SepaGroupHeader :: "'n number_ops \<Rightarrow> string \<Rightarrow> 'n SepaGroupHeader" where
  "new_SepaGroupHeader ops painFormat =
     \<lparr> gh_painFormat = painFormat, gh_id = [], gh_created = None, gh_transactionCount = 0,
       gh_initiatorName = [], gh_cifNumber = [], gh_cucNumber = [],
       gh_controlSum = num_zero ops, gh_batchBooking = False, gh_grouping = ''MIXD'' \<rparr>"

text \<open>
  The field \<open>_type\<close> of a document, the root element name that the constructor looks up
  in \<open>SEPATypes\<close>, is read only where \<open>SepaDocument.toXML\<close> creates the DOM root, which
  the model leaves out; the record does not carry it.
\<close>

record ('n, 'p) SepaDocument_of =
  doc_painFormat :: string
  doc_paymentInfo :: "'p list"
  doc_xmlVersion :: string
  doc_xmlEncoding :: string
  doc_grpHdr :: "'n SepaGroupHeader"

type_synonym 'n SepaDocument = "('n, 'n SepaPaymentInfo) SepaDocument_of"

text \<open>\<open>painFormat || DEFAULT_PAIN_FORMAT\<close>: a missing or empty argument gives the default.\<close>

definition new_SepaDocument :: "'n number_ops \<Rightarrow> string option \<Rightarrow> ('n, 'p) SepaDocument_of" where
  "new_SepaDocument ops painFormat =
     (let fmt = (case painFormat of None \<Rightarrow> DEFAULT_PAIN_FORMAT
                 | Some f \<Rightarrow> if f = [] then DEFAULT_PAIN_FORMAT else f)
      in \<lparr> doc_painFormat = fmt, doc_paymentInfo = [],
           doc_xmlVersion = ''1.0'', doc_xmlEncoding = ''UTF-8'',
           doc_grpHdr = new_SepaGroupHeader ops fmt \<rparr>)"

text \<open>
  The factory methods give the fields of the new object; the caller holds it at a fresh
  address of the heap.
\<close>

definition createPaymentInfo ::
  "'n number_ops \<Rightarrow> ('n, 'p) SepaDocument_of \<Rightarrow> ('n, 't) SepaPaymentInfo_of" where
  "createPaymentInfo ops d = new_SepaPaymentInfo ops (doc_painFormat d)"

definition createTransaction ::
  "'n number_ops \<Rightarrow> ('n, 't) SepaPaymentInfo_of \<Rightarrow> 'n SepaTransaction" where
  "createTransaction ops p = new_SepaTransaction ops (pi_painFormat p)"

definition transactionCount :: "'n SepaPaymentInfo \<Rightarrow> nat" where
  "transactionCount p = length (pi_payments p)"

subsection \<open>Attaching a child: identifier assignment\<close>

text \<open>
  \<open>addPaymentInfo\<close> and \<open>addTransaction\<close> assign the id on the object that the caller
  passes and push a reference to it, so the object may already be in the array, or in the
  array of another parent. The heap gives the transaction and the payment block at each
  address; the argument of an attach method is an address. An address that holds no
  object of the class is an argument that fails the \<open>instanceof\<close> guard. The document is
  the receiver: the model passes its record and returns it with the longer array.
\<close>

record 'n heap =
  heap_transaction :: "ref \<Rightarrow> 'n SepaTransaction option"
  heap_paymentInfo :: "ref \<Rightarrow> ('n, ref) SepaPaymentInfo_of option"

definition addPaymentInfo ::
  "globals \<Rightarrow> 'n heap \<Rightarrow> ('n, ref) SepaDocument_of \<Rightarrow> ref
     \<Rightarrow> error + ('n heap \<times> ('n, ref) SepaDocument_of)" where
  "addPaymentInfo g h this pi =
     (case heap_paymentInfo h pi of
        None \<Rightarrow> Inl (Error ''Given payment is not member of the PaymentInfo class'')
      | Some p \<Rightarrow>
          (let p' =
             (if pi_overrideReference p \<noteq> [] then p\<lparr> pi_id := pi_overrideReference p \<rparr>
              else if pi_id p \<noteq> [] then
                p\<lparr> pi_id := gh_id (doc_grpHdr this) @ ID_SEPARATOR g @ pi_id p \<rparr>
              else
                p\<lparr> pi_id := gh_id (doc_grpHdr this) @ ID_SEPARATOR g
                               @ string_of_nat (length (doc_paymentInfo this)) \<rparr>)
           in Inr (h\<lparr> heap_paymentInfo := (heap_paymentInfo h)(pi \<mapsto> p') \<rparr>,
                   this\<lparr> doc_paymentInfo := doc_paymentInfo this @ [pi] \<rparr>)))"

text \<open>
  The receiver of \<open>addTransaction\<close> is a payment block of the heap, at the address
  \<open>this\<close>; a call on an address that holds none has no method to run.
\<close>

definition addTransaction :: "globals \<Rightarrow> 'n heap \<Rightarrow> ref \<Rightarrow> ref \<Rightarrow> error + 'n heap" where
  "addTransaction g h this pmt =
     (case heap_paymentInfo h this of
        None \<Rightarrow> Inl TypeError
      | Some p \<Rightarrow>
          (case heap_transaction h pmt of
             None \<Rightarrow> Inl (Error ''Given Transaction is not member of the SepaTransaction class'')
           | Some t \<Rightarrow>
               (let prefixed =
                      (if tx_id t \<noteq> [] then
                         t\<lparr> tx_id := pi_id p @ ID_SEPARATOR g @ tx_id t \<rparr>
                       else
                         t\<lparr> tx_id := pi_id p @ ID_SEPARATOR g
                                        @ string_of_nat (length (pi_payments p)) \<rparr>);
                    t' =
                      (case tx_overrideReference t of
                         None \<Rightarrow> prefixed
                       | Some r \<Rightarrow> if r \<noteq> [] then t\<lparr> tx_id := r \<rparr> else prefixed)
                in Inr (h\<lparr> heap_transaction := (heap_transaction h)(pmt \<mapsto> t'),
                          heap_paymentInfo :=
                            (heap_paymentInfo h)(this \<mapsto> p\<lparr> pi_payments := pi_payments p @ [pmt] \<rparr>) \<rparr>))))"

text \<open>
  The tree under an object: each reference of an array is replaced by the object that
  the heap holds there. (The attach methods only push addresses that hold an object of
  the class, and nothing is ever removed from the heap.)
\<close>

definition paymentInfo_tree :: "'n heap \<Rightarrow> ('n, ref) SepaPaymentInfo_of \<Rightarrow> 'n SepaPaymentInfo" where
  "paymentInfo_tree h p =
     \<lparr> pi_painFormat = pi_painFormat p,
       pi_payments = List.map_filter (heap_transaction h) (pi_payments p),
       pi_id = pi_id p, pi_method = pi_method p, pi_batchBooking = pi_batchBooking p,
       pi_grouping = pi_grouping p, pi_controlSum = pi_controlSum p,
       pi_localInstrumentation = pi_localInstrumentation p,
       pi_sequenceType = pi_sequenceType p, pi_collectionDate = pi_collectionDate p,
       pi_requestedExecutionDate = pi_requestedExecutionDate p,
       pi_creditorId = pi_creditorId p, pi_creditor = pi_creditor p,
       pi_creditorMemberId = pi_creditorMemberId p, pi_debtorId = pi_debtorId p,
       pi_debtor = pi_debtor p, pi_debtorMemberId = pi_debtorMemberId p,
       pi_instructionPriority = pi_instructionPriority p,
       pi_categoryPurpose = pi_categoryPurpose p,
       pi_overrideReference = pi_overrideReference p \<rparr>"

definition document_tree :: "'n heap \<Rightarrow> ('n, ref) SepaDocument_of \<Rightarrow> 'n SepaDocument" where
  "document_tree h d =
     \<lparr> doc_painFormat = doc_painFormat d,
       doc_paymentInfo =
         map (paymentInfo_tree h) (List.map_filter (heap_paymentInfo h) (doc_paymentInfo d)),
       doc_xmlVersion = doc_xmlVersion d, doc_xmlEncoding = doc_xmlEncoding d,
       doc_grpHdr = doc_grpHdr d \<rparr>"

subsection \<open>Normalization\<close>

fun PaymentInfo_normalize_loop :: "'n number_ops \<Rightarrow> 'n \<Rightarrow> 'n SepaTransaction list \<Rightarrow> 'n" where
  "PaymentInfo_normalize_loop ops controlSum [] = controlSum"
| "PaymentInfo_normalize_loop ops controlSum (t # ts) =
     PaymentInfo_normalize_loop ops (num_add ops controlSum (tx_amount t)) ts"

definition PaymentInfo_normalize :: "'n number_ops \<Rightarrow> 'n SepaPaymentInfo \<Rightarrow> 'n SepaPaymentInfo" where
  "PaymentInfo_normalize ops p =
     p\<lparr> pi_controlSum := PaymentInfo_normalize_loop ops (num_zero ops) (pi_payments p) \<rparr>"

text \<open>
  The loop of \<open>SepaDocument.normalize\<close>: each block is normalized in place, then its
  control sum and its transaction count are added to the running totals. Normalization
  writes the control sums and the count only; it is given on the tree that it reads.
\<close>

fun Document_normalize_loop ::
  "'n number_ops \<Rightarrow> 'n \<Rightarrow> nat \<Rightarrow> 'n SepaPaymentInfo list \<Rightarrow> 'n SepaPaymentInfo list \<times> 'n \<times> nat" where
  "Document_normalize_loop ops controlSum txCount [] = ([], controlSum, txCount)"
| "Document_normalize_loop ops controlSum txCount (p # ps) =
     (let p' = PaymentInfo_normalize ops p;
          (ps', c, n) = Document_normalize_loop ops
                          (num_add ops controlSum (pi_controlSum p'))
                          (txCount + transactionCount p') ps
      in (p' # ps', c, n))"

definition Document_normalize :: "'n number_ops \<Rightarrow> 'n SepaDocument \<Rightarrow> 'n SepaDocument" where
  "Document_normalize ops d =
     (let (ps, controlSum, txCount) =
            Document_normalize_loop ops (num_zero ops) 0 (doc_paymentInfo d)
      in d\<lparr> doc_paymentInfo := ps,
            doc_grpHdr := (doc_grpHdr d)\<lparr> gh_controlSum := controlSum,
                                          gh_transactionCount := txCount \<rparr> \<rparr>)"

section \<open>Validation engine\<close>

definition assert :: "bool \<Rightarrow> string \<Rightarrow> error + unit" where
  "assert cond msg = (if \<not> cond then Inl (Error msg) else Inr ())"

definition assert_fixed :: "jsval \<Rightarrow> jsval list \<Rightarrow> string \<Rightarrow> error + unit" where
  "assert_fixed val choices member =
     (if val \<notin> set choices then
        Inl (Error (member @ '' must have any value of: '' @ join '' '' (map js_toString choices)
                    @ ''(found: '' @ js_toString val @ '')''))
      else Inr ())"

text \<open>
  \<open>str.length < min\<close> and \<open>str.length > max\<close> are false when \<open>str.length\<close> is
  \<open>undefined\<close>, that is, when \<open>str\<close> is a number.
\<close>

definition assert_length :: "jsval \<Rightarrow> nat option \<Rightarrow> nat option \<Rightarrow> string \<Rightarrow> error + unit" where
  "assert_length str min' max' member =
     (if (case min' of
            None \<Rightarrow> False
          | Some m \<Rightarrow> truthy str \<and> (case js_length str of None \<Rightarrow> False | Some l \<Rightarrow> l < m))
         \<or> (case max' of
               None \<Rightarrow> False
             | Some m \<Rightarrow> truthy str \<and> (case js_length str of None \<Rightarrow> False | Some l \<Rightarrow> l > m))
      then Inl (Error (member @ '' has invalid string length, expected '' @ opt_toString min'
                       @ '' < '' @ js_toString str @ '' < '' @ opt_toString max'))
      else Inr ())"

definition assert_range :: "'n number_ops \<Rightarrow> 'n \<Rightarrow> 'n \<Rightarrow> 'n \<Rightarrow> string \<Rightarrow> error + unit" where
  "assert_range ops num min' max' member =
     (if num_less ops num min' \<or> num_less ops max' num then
        Inl (Error (member @ '' does not match range '' @ num_toString ops min' @ '' < ''
                    @ num_toString ops num @ '' < '' @ num_toString ops max'))
      else Inr ())"

definition assert_iban :: "string \<Rightarrow> string \<Rightarrow> error + unit" where
  "assert_iban str member =
     (if \<not> validateIBAN str then
        Inl (Error (member @ '' has invalid IBAN '' @ dquote @ str @ dquote))
      else Inr ())"

definition assert_name :: "string \<Rightarrow> string \<Rightarrow> error + unit" where
  "assert_name str member =
     (if str = [] \<or> length (trim str) = 0 then
        Inl (Error (member @ '' has invalid name: '' @ dquote @ str @ dquote))
      else Inr ())"

definition assert_cid :: "string \<Rightarrow> string \<Rightarrow> error + unit" where
  "assert_cid str member =
     (if \<not> validateCreditorID str then
        Inl (Error (member @ '' is invalid '' @ dquote @ str @ dquote))
      else Inr ())"

text \<open>\<open>!dt || isNaN(dt.getTime())\<close>; in the message \<open>dt\<close> reads \<open>null\<close> or \<open>Invalid Date\<close>.\<close>

definition assert_date :: "jsdate option \<Rightarrow> string \<Rightarrow> error + unit" where
  "assert_date dt member =
     (case dt of
        None \<Rightarrow> Inl (Error (member @ '' has invalid date '' @ ''null''))
      | Some InvalidDate \<Rightarrow> Inl (Error (member @ '' has invalid date '' @ ''Invalid Date''))
      | Some (ValidDate _) \<Rightarrow> Inr ())"

text \<open>
  The two character classes of the regular expressions. Inside the brackets \<open>|\<close> is a
  character like any other, so both classes hold it; the first class also holds the space.
\<close>

definition sepa_id_set2 :: "char \<Rightarrow> bool" where
  "sepa_id_set2 c =
     ((65 \<le> charCodeAt c \<and> charCodeAt c \<le> 90) \<or> (97 \<le> charCodeAt c \<and> charCodeAt c \<le> 122)
      \<or> (48 \<le> charCodeAt c \<and> charCodeAt c \<le> 57)
      \<or> c \<in> set (''+|?/-:().,'' @ squote))"

definition sepa_id_set1 :: "char \<Rightarrow> bool" where
  "sepa_id_set1 c =
     ((65 \<le> charCodeAt c \<and> charCodeAt c \<le> 90) \<or> (97 \<le> charCodeAt c \<and> charCodeAt c \<le> 122)
      \<or> (48 \<le> charCodeAt c \<and> charCodeAt c \<le> 57)
      \<or> c \<in> set (''+|?/-:().,'' @ squote @ '' ''))"

text \<open>
  \<open>str.match(/(C){lo,hi}/)\<close> for a character class \<open>C\<close>. The expression has no anchor:
  the search tries every start position and succeeds at the first one where at least \<open>lo\<close>
  characters of the class follow (\<open>match_run\<close> consumes at most \<open>hi\<close> of them).
\<close>

fun match_run :: "(char \<Rightarrow> bool) \<Rightarrow> nat \<Rightarrow> string \<Rightarrow> nat" where
  "match_run cls 0 s = 0"
| "match_run cls (Suc k) [] = 0"
| "match_run cls (Suc k) (c # cs) = (if cls c then Suc (match_run cls k cs) else 0)"

fun regex_search :: "(char \<Rightarrow> bool) \<Rightarrow> nat \<Rightarrow> nat \<Rightarrow> string \<Rightarrow> bool" where
  "regex_search cls lo hi [] = (lo \<le> match_run cls hi [])"
| "regex_search cls lo hi (c # cs) =
     (lo \<le> match_run cls hi (c # cs) \<or> regex_search cls lo hi cs)"

definition assert_sepa_id_set1 :: "string \<Rightarrow> string \<Rightarrow> error + unit" where
  "assert_sepa_id_set1 str member =
     (if str \<noteq> [] \<and> \<not> regex_search sepa_id_set1 1 35 str then
        Inl (Error (member @ '' doesn'' @ squote @ ''t match sepa id charset type 1 (found: ''
                    @ dquote @ str @ dquote @ '')''))
      else Inr ())"

definition assert_sepa_id_set2 :: "string \<Rightarrow> string \<Rightarrow> error + unit" where
  "assert_sepa_id_set2 str member =
     (if str \<noteq> [] \<and> \<not> regex_search sepa_id_set2 1 35 str then
        Inl (Error (member @ '' doesn'' @ squote @ ''t match sepa id charset type 2 (found: ''
                    @ dquote @ str @ dquote @ '')''))
      else Inr ())"

text \<open>
  \<open>assert_debitor\<close>: every check that fails pushes a field name and overwrites \<open>message\<close>.
  The state of the function is the pair of \<open>message\<close> and \<open>invalidFields\<close>; each step below
  is one \<open>if\<close> or one \<open>try\<close>/\<open>catch\<close> of the source, in its order (the \<open>try\<close> around
  \<open>assert_name\<close> is there twice).
\<close>

definition too_long :: "string option \<Rightarrow> nat \<Rightarrow> bool" where
  "too_long v n = (case v of None \<Rightarrow> False | Some s \<Rightarrow> s \<noteq> [] \<and> length s > n)"

definition debitor_length_step ::
  "string option \<Rightarrow> nat \<Rightarrow> string \<Rightarrow> string \<times> string list \<Rightarrow> string \<times> string list" where
  "debitor_length_step v n field st =
     (if too_long v n then (''debitor '' @ field @ '' is too long.'', snd st @ [field]) else st)"

definition debitor_name_step ::
  "string \<Rightarrow> string \<Rightarrow> string \<times> string list \<Rightarrow> string \<times> string list" where
  "debitor_name_step name pullFrom st =
     (case assert_name name pullFrom of
        Inl _ \<Rightarrow> (pullFrom @ '' has invalid name: '' @ dquote @ name @ dquote,
                  snd st @ [pullFrom @ ''Name''])
      | Inr _ \<Rightarrow> st)"

definition debitor_account_step ::
  "string \<Rightarrow> string \<Rightarrow> string \<Rightarrow> string \<Rightarrow> string \<times> string list \<Rightarrow> string \<times> string list" where
  "debitor_account_step name iban bic pullFrom st =
     (case run_checks
             [ assert_iban iban (pullFrom @ ''IBAN''),
               assert_fixed (Num (length bic)) [Num 0, Num 8, Num 11] (pullFrom @ ''BIC''),
               assert (length bic = 0 \<or> substr bic 4 (Some 2) = substr iban 0 (Some 2)) (fst st) ] of
        Inl _ \<Rightarrow> (''country mismatch in BIC/IBAN for '' @ pullFrom @ '' called '' @ name
                    @ '' with BIC: '' @ bic @ '' and IBAN: '' @ iban,
                  snd st @ [''IBAN/BIC''])
      | Inr _ \<Rightarrow> st)"

definition assert_debitor :: "party \<Rightarrow> string \<Rightarrow> error + unit" where
  "assert_debitor p pullFrom =
     (let st = ([], []);
          st = debitor_length_step (Some (Name p)) 70 ''name'' st;
          st = debitor_length_step (Street p) 70 ''street'' st;
          st = debitor_length_step (City p) 70 ''city'' st;
          st = debitor_length_step (Country p) 2 ''country'' st;
          st = debitor_name_step (Name p) pullFrom st;
          st = debitor_name_step (Name p) pullFrom st;
          st = debitor_account_step (Name p) (IBAN p) (BIC p) pullFrom st
      in if length (snd st) > 0 then Inl (InvalidSupplierError (Name p) (snd st) (fst st))
         else Inr ())"

subsection \<open>The violations of a counterparty, as the specification lists them\<close>

text \<open>
  The reference for the cross-field check: the rules that a counterparty violates, in
  the order in which the check goes through them, each with the field name that is
  reported and the message of the rule. The rules are: name, street and city of at most 70
  characters, country of at most 2, a name that is not empty after trimming, and an
  account whose IBAN is valid and whose bank identifier, when there is one, has 8 or 11
  characters and carries the country code of the IBAN.
\<close>

definition account_violation :: "string \<Rightarrow> string \<Rightarrow> bool" where
  "account_violation iban bic =
     (\<not> validateIBAN iban \<or> length bic \<notin> {0, 8, 11}
      \<or> (bic \<noteq> [] \<and> take 2 (drop 4 bic) \<noteq> take 2 iban))"

definition counterparty_violations :: "party \<Rightarrow> string \<Rightarrow> (string \<times> string) list" where
  "counterparty_violations p pullFrom =
     (if 70 < length (Name p) then [(''name'', ''debitor name is too long.'')] else [])
     @ (if too_long (Street p) 70 then [(''street'', ''debitor street is too long.'')] else [])
     @ (if too_long (City p) 70 then [(''city'', ''debitor city is too long.'')] else [])
     @ (if too_long (Country p) 2 then [(''country'', ''debitor country is too long.'')] else [])
     @ (if trim (Name p) = []
        then [(pullFrom @ ''Name'',
               pullFrom @ '' has invalid name: '' @ dquote @ Name p @ dquote)] else [])
     @ (if account_violation (IBAN p) (BIC p)
        then [(''IBAN/BIC'',
               ''country mismatch in BIC/IBAN for '' @ pullFrom @ '' called '' @ Name p
                 @ '' with BIC: '' @ BIC p @ '' and IBAN: '' @ IBAN p)] else [])"

subsection \<open>Entity validators\<close>

definition pi_pull :: "string \<Rightarrow> 'n SepaPaymentInfo \<Rightarrow> party" where
  "pi_pull pullFrom p = (if pullFrom = ''creditor'' then pi_creditor p else pi_debtor p)"

definition pi_pull_Id :: "string \<Rightarrow> 'n SepaPaymentInfo \<Rightarrow> string" where
  "pi_pull_Id pullFrom p = (if pullFrom = ''creditor'' then pi_creditorId p else pi_debtorId p)"

definition pi_pull_MemberId :: "string \<Rightarrow> 'n SepaPaymentInfo \<Rightarrow> string" where
  "pi_pull_MemberId pullFrom p =
     (if pullFrom = ''creditor'' then pi_creditorMemberId p else pi_debtorMemberId p)"

definition tx_pull :: "string \<Rightarrow> 'n SepaTransaction \<Rightarrow> party" where
  "tx_pull pullFrom t = (if pullFrom = ''creditor'' then tx_creditor t else tx_debtor t)"

definition PaymentInfo_validate :: "'n SepaPaymentInfo \<Rightarrow> error + unit" where
  "PaymentInfo_validate p =
     (let pullFrom = (if pi_method p = PaymentInfoTypes_DirectDebit then ''creditor'' else ''debtor'')
      in run_checks
           [ assert_fixed (Str (pi_localInstrumentation p)) [Str ''CORE'', Str ''COR1'', Str ''B2B'']
               ''localInstrumentation'',
             assert_fixed (Str (pi_sequenceType p))
               [Str ''FRST'', Str ''RCUR'', Str ''OOFF'', Str ''FNAL''] ''sequenceType'',
             (if pi_method p = PaymentInfoTypes_DirectDebit
              then assert_date (pi_collectionDate p) ''collectionDate''
              else assert_date (pi_requestedExecutionDate p) ''requestedExecutionDate''),
             assert_cid (pi_pull_Id pullFrom p) (pullFrom @ ''Id''),
             assert_debitor (pi_pull pullFrom p) pullFrom,
             assert_length (Num (length (pi_payments p))) (Some 1) None ''_payments'' ])"

text \<open>
  The check of the fractional digits reads \<open>amount.toString().split('.')[1].length\<close>,
  which throws when the string has no second part. \<open>parseInt\<close> is called without a
  radix there; the string of a number never starts with \<open>0x\<close>, so the radix is 10.
\<close>

definition amount_fraction_check :: "'n number_ops \<Rightarrow> 'n \<Rightarrow> error + unit" where
  "amount_fraction_check ops amount =
     (if \<not> (case parseInt (num_toString ops amount) of
               None \<Rightarrow> False
             | Some k \<Rightarrow> num_eq ops (num_of_int ops k) amount)
      then (case split CHR ''.'' (num_toString ops amount) of
              _ # frac # _ \<Rightarrow> assert (length frac \<le> 2) ''amount has too many fractional digits''
            | _ \<Rightarrow> Inl TypeError)
      else Inr ())"

definition Transaction_validate :: "'n number_ops \<Rightarrow> 'n SepaTransaction \<Rightarrow> error + unit" where
  "Transaction_validate ops t =
     (let pullFrom = (if tx_type t = Transfer then ''creditor'' else ''debtor'')
      in run_checks
           [ assert_sepa_id_set1 (tx_end2endId t) ''end2endId'',
             assert_range ops (tx_amount t) (num_min_amount ops) (num_max_amount ops) ''amount'',
             amount_fraction_check ops (tx_amount t),
             assert_length (opt_val (tx_purposeCode t)) (Some 1) (Some 4) ''purposeCode'',
             assert_sepa_id_set2 (tx_mandateId t) ''mandateId'',
             assert_date (tx_mandateSignatureDate t) ''mandateSignatureDate'',
             assert_debitor (tx_pull pullFrom t) pullFrom,
             assert_length (Str (tx_remittanceInfo t)) None (Some 140) ''remittanceInfo'' ])"

section \<open>XML rendering\<close>

text \<open>
  The DOM is the external XML facility. The model keeps the tree that the calls build: an
  element has a tag, attributes and children, and \<open>node.textContent = val\<close> leaves the
  assigned value as the content of the node. All elements are created in the namespace of
  the document, which the model leaves out, as it leaves out the creation of the DOM
  document and its serialization in \<open>SepaDocument.toXML\<close> and \<open>toString\<close>.
\<close>

datatype xml = Element string "(string \<times> string) list" "xml list" | TextContent jsval

text \<open>
  \<open>createXMLHelper(doc, required, withVal)\<close> returns a function of the parent, the element
  names and, with \<open>withVal\<close>, the value. When \<open>required\<close> holds or the value is truthy or
  \<open>0\<close>, it appends to the parent the chain of nested elements and returns the innermost
  one; otherwise it appends nothing. Nodes are only ever appended, so the tree that a
  render method builds is given by what each parent receives, in order: the helper of the
  model returns the nodes that the call appends to the parent. The attributes that the
  caller then sets on the returned node and the children that it appends to it later in
  the method are the arguments \<open>attrs\<close> and \<open>later\<close>.
\<close>

fun nest :: "string list \<Rightarrow> (string \<times> string) list \<Rightarrow> xml list \<Rightarrow> xml list" where
  "nest [] attrs inner = inner"
| "nest [t] attrs inner = [Element t attrs inner]"
| "nest (t # ts) attrs inner = [Element t [] (nest ts attrs inner)]"

definition createXMLHelper ::
  "bool \<Rightarrow> bool \<Rightarrow> string list \<Rightarrow> jsval \<Rightarrow> (string \<times> string) list \<Rightarrow> xml list \<Rightarrow> xml list" where
  "createXMLHelper required withVal names val attrs later =
     (if required \<or> (withVal \<and> (truthy val \<or> val = Num 0)) then
        nest names attrs ((if withVal then [TextContent val] else []) @ later)
      else [])"

text \<open>The three helpers of the render methods, \<open>r\<close>, \<open>n\<close> and \<open>o\<close> in the source.\<close>

definition xml_r :: "string list \<Rightarrow> jsval \<Rightarrow> xml list" where
  "xml_r names val = createXMLHelper True True names val [] []"

definition xml_n :: "string list \<Rightarrow> xml list \<Rightarrow> xml list" where
  "xml_n names later = createXMLHelper True False names Null [] later"

definition xml_o :: "string list \<Rightarrow> jsval \<Rightarrow> xml list" where
  "xml_o names val = createXMLHelper False True names val [] []"

definition GroupHeader_toXML :: "'n number_ops \<Rightarrow> 'n SepaGroupHeader \<Rightarrow> error + xml" where
  "GroupHeader_toXML ops gh =
     (let painVersion = getPainXMLVersion (gh_painFormat gh) in
      case toISOString (gh_created gh) of
        Inl e \<Rightarrow> Inl e
      | Inr created \<Rightarrow>
          Inr (Element ''GrpHdr'' []
            ( xml_r [''MsgId''] (Str (gh_id gh))
            @ xml_r [''CreDtTm''] (Str created)
            @ (if painVersion = Some 2
               then xml_r [''BtchBookg''] (Str (bool_toString (gh_batchBooking gh))) else [])
            @ xml_r [''NbOfTxs''] (Num (gh_transactionCount gh))
            @ xml_r [''CtrlSum''] (Str (num_toFixed2 ops (gh_controlSum gh)))
            @ (if painVersion = Some 2 then xml_r [''Grpg''] (Str (gh_grouping gh)) else [])
            @ xml_n [''InitgPty'']
                ( xml_r [''Nm''] (Str (gh_initiatorName gh))
                @ (if gh_cifNumber gh \<noteq> []
                   then xml_r [''Id'', ''OrgId'', ''Othr'', ''Id''] (Str (gh_cifNumber gh)) else [])
                @ (if gh_cucNumber gh \<noteq> []
                   then xml_n [''Id'', ''OrgId'', ''Othr'']
                          (xml_r [''Id''] (Str (gh_cucNumber gh)) @ xml_r [''Issr''] (Str ''CBI''))
                   else [])))))"

definition present :: "string option \<Rightarrow> bool" where
  "present v = (case v of None \<Rightarrow> False | Some s \<Rightarrow> s \<noteq> [])"

text \<open>
  \<open>SepaTransaction.toXML\<close>. The postal address reads the debtor's fields whatever
  \<open>pullFrom\<close> is, as the source does.
\<close>

definition Transaction_toXML ::
  "globals \<Rightarrow> 'n number_ops \<Rightarrow> 'n SepaTransaction \<Rightarrow> error + xml" where
  "Transaction_toXML g ops t =
     (case (if VALIDATIONS_ENABLED g then Transaction_validate ops t else Inr ()) of
        Inl e \<Rightarrow> Inl e
      | Inr _ \<Rightarrow>
         (let pullFrom = (if tx_type t = Transfer then ''creditor'' else ''debtor'');
              recieverNodeName = (if tx_type t = Transfer then ''Cdtr'' else ''Dbtr'');
              party = tx_pull pullFrom t;
              head = xml_n [''PmtId'']
                       (xml_r [''InstrId''] (Str (tx_id t)) @ xml_r [''EndToEndId''] (Str (tx_end2endId t)));
              tail =
                (if BIC party \<noteq> []
                 then xml_r [recieverNodeName @ ''Agt'', ''FinInstnId'', ''BIC''] (Str (BIC party))
                 else xml_r [recieverNodeName @ ''Agt'', ''FinInstnId'', ''Othr'', ''Id'']
                        (Str ''NOTPROVIDED''))
                @ xml_n [recieverNodeName]
                    ( xml_r [''Nm''] (Str (Name party))
                    @ (if present (Street party) \<and> present (City party) \<and> present (Country party)
                       then xml_n [''PstlAdr'']
                              ( xml_r [''Ctry''] (opt_val (Country (tx_debtor t)))
                              @ xml_r [''AdrLine''] (opt_val (Street (tx_debtor t)))
                              @ xml_r [''AdrLine''] (opt_val (City (tx_debtor t))))
                       else []))
                @ xml_r [recieverNodeName @ ''Acct'', ''Id'', ''IBAN''] (Str (IBAN party))
                @ xml_r [''RmtInf'', ''Ustrd''] (Str (tx_remittanceInfo t))
                @ xml_o [''Purp'', ''Cd''] (opt_val (tx_purposeCode t))
          in if tx_type t = DirectDebit then
               (case toISOString (tx_mandateSignatureDate t) of
                  Inl e \<Rightarrow> Inl e
                | Inr signature \<Rightarrow>
                    Inr (Element (TransactionTypes_name (tx_type t)) []
                      ( head
                      @ createXMLHelper True True [''InstdAmt'']
                          (Str (num_toFixed2 ops (tx_amount t))) [(''Ccy'', tx_currency t)] []
                      @ xml_n [''DrctDbtTx'', ''MndtRltdInf'']
                          ( xml_r [''MndtId''] (Str (tx_mandateId t))
                          @ xml_r [''DtOfSgntr''] (Str (substr signature 0 (Some 10)))
                          @ (if tx_ammendment t \<noteq> []
                             then xml_r [''AmdmntInd''] (Str ''true'')
                                  @ xml_r [''AmdmnInfDtls''] (Str (tx_ammendment t))
                             else xml_r [''AmdmntInd''] (Str ''false'')))
                      @ tail)))
             else
               Inr (Element (TransactionTypes_name (tx_type t)) []
                 ( head
                 @ createXMLHelper True True [''Amt'', ''InstdAmt'']
                     (Str (num_toFixed2 ops (tx_amount t))) [(''Ccy'', tx_currency t)] []
                 @ tail))))"

text \<open>The loop over \<open>_payments\<close>: the first transaction that throws ends the rendering.\<close>

fun Transactions_toXML ::
  "globals \<Rightarrow> 'n number_ops \<Rightarrow> 'n SepaTransaction list \<Rightarrow> error + xml list" where
  "Transactions_toXML g ops [] = Inr []"
| "Transactions_toXML g ops (t # ts) =
     (case Transaction_toXML g ops t of
        Inl e \<Rightarrow> Inl e
      | Inr x \<Rightarrow> (case Transactions_toXML g ops ts of Inl e \<Rightarrow> Inl e | Inr xs \<Rightarrow> Inr (x # xs)))"

definition PaymentInfo_toXML ::
  "globals \<Rightarrow> 'n number_ops \<Rightarrow> 'n SepaPaymentInfo \<Rightarrow> error + xml" where
  "PaymentInfo_toXML g ops p =
     (case (if VALIDATIONS_ENABLED g then PaymentInfo_validate p else Inr ()) of
        Inl e \<Rightarrow> Inl e
      | Inr _ \<Rightarrow>
         (let directDebit = (pi_method p = PaymentInfoTypes_DirectDebit);
              pullFrom = (if directDebit then ''creditor'' else ''debtor'');
              emitterNodeName = (if directDebit then ''Cdtr'' else ''Dbtr'');
              party = pi_pull pullFrom p
          in case toISOString (if directDebit then pi_collectionDate p
                               else pi_requestedExecutionDate p) of
               Inl e \<Rightarrow> Inl e
             | Inr date \<Rightarrow>
                (case Transactions_toXML g ops (pi_payments p) of
                   Inl e \<Rightarrow> Inl e
                 | Inr payments \<Rightarrow>
                     Inr (Element ''PmtInf'' []
                       ( xml_r [''PmtInfId''] (Str (pi_id p))
                       @ xml_r [''PmtMtd''] (Str (pi_method p))
                       @ (if getPainXMLVersion (pi_painFormat p) = Some 3
                          then xml_r [''BtchBookg''] (Str (bool_toString (pi_batchBooking p)))
                               @ xml_r [''NbOfTxs''] (Num (transactionCount p))
                               @ xml_r [''CtrlSum''] (Str (num_toFixed2 ops (pi_controlSum p)))
                          else [])
                       @ xml_n [''PmtTpInf'']
                           ( xml_r [''InstrPrty''] (Str (pi_instructionPriority p))
                           @ xml_r [''SvcLvl'', ''Cd''] (Str ''SEPA'')
                           @ (if pi_categoryPurpose p \<noteq> []
                              then xml_r [''CtgyPurp'', ''Cd''] (Str (pi_categoryPurpose p)) else [])
                           @ (if directDebit
                              then xml_r [''LclInstrm'', ''Cd''] (Str (pi_localInstrumentation p))
                                   @ xml_r [''SeqTp''] (Str (pi_sequenceType p))
                              else []))
                       @ (if directDebit
                          then xml_r [''ReqdColltnDt''] (Str (substr date 0 (Some 10)))
                          else xml_r [''ReqdExctnDt''] (Str (substr date 0 (Some 10))))
                       @ xml_n [emitterNodeName]
                           ( xml_r [''Nm''] (Str (Name party))
                           @ (if present (Street party) \<and> present (City party)
                                 \<and> present (Country party)
                              then xml_n [''PstlAdr'']
                                     ( xml_r [''Ctry''] (opt_val (Country party))
                                     @ xml_r [''AdrLine''] (opt_val (Street party))
                                     @ xml_r [''AdrLine''] (opt_val (City party)))
                              else []))
                       @ xml_r [emitterNodeName @ ''Acct'', ''Id'', ''IBAN''] (Str (IBAN party))
                       @ (if BIC party \<noteq> []
                          then xml_n [emitterNodeName @ ''Agt'', ''FinInstnId'']
                                 ( xml_r [''BIC''] (Str (BIC party))
                                 @ (if pi_pull_MemberId pullFrom p \<noteq> []
                                    then xml_r [''ClrSysMmbId'', ''MmbId'']
                                           (Str (pi_pull_MemberId pullFrom p))
                                    else []))
                          else xml_r [emitterNodeName @ ''Agt'', ''FinInstnId'', ''Othr'', ''Id'']
                                 (Str ''NOTPROVIDED''))
                       @ xml_r [''ChrgBr''] (Str ''SLEV'')
                       @ (if directDebit
                          then xml_n [''CdtrSchmeId'', ''Id'', ''PrvtId'', ''Othr'']
                                 ( xml_r [''Id''] (Str (pi_creditorId p))
                                 @ xml_r [''SchmeNm'', ''Prtry''] (Str ''SEPA''))
                          else [])
                       @ payments)))))"

subsection \<open>Reading a rendered tree\<close>

fun tag_of :: "xml \<Rightarrow> string option" where
  "tag_of (Element t _ _) = Some t"
| "tag_of (TextContent _) = None"

fun children_of :: "xml \<Rightarrow> xml list" where
  "children_of (Element _ _ cs) = cs"
| "children_of (TextContent _) = []"

fun content_of :: "xml \<Rightarrow> jsval option" where
  "content_of (Element _ _ _) = None"
| "content_of (TextContent v) = Some v"

text \<open>The tags of the elements directly under a node.\<close>

definition child_tags :: "xml \<Rightarrow> string list" where
  "child_tags x = List.map_filter tag_of (children_of x)"

text \<open>The nodes reached from a node by a path of tags, and the values assigned to them.\<close>

fun select :: "string list \<Rightarrow> xml \<Rightarrow> xml list" where
  "select [] x = [x]"
| "select (t # ts) x =
     concat (map (select ts) (filter (\<lambda>c. tag_of c = Some t) (children_of x)))"

definition values_at :: "string list \<Rightarrow> xml \<Rightarrow> jsval list" where
  "values_at path x = concat (map (\<lambda>y. List.map_filter content_of (children_of y)) (select path x))"

section \<open>Example entities\<close>

text \<open>Concrete entities on which the theorems below are evaluated.\<close>

definition example_date :: jsdate where
  "example_date = ValidDate ''2014-01-01T00:00:00.000Z''"

definition example_party :: party where
  "example_party =
     \<lparr> Name = ''ACME'', Street = None, City = None, Country = None,
       IBAN = ''DE87123456781234567890'', BIC = [] \<rparr>"

definition example_document :: "int SepaDocument" where
  "example_document =
     (new_SepaDocument hundredths None)
       \<lparr> doc_grpHdr := (new_SepaGroupHeader hundredths DEFAULT_PAIN_FORMAT)
                          \<lparr> gh_id := ''MSG1'', gh_created := Some example_date \<rparr> \<rparr>"

definition example_paymentInfo :: "int SepaPaymentInfo" where
  "example_paymentInfo =
     (createPaymentInfo hundredths example_document)
       \<lparr> pi_collectionDate := Some example_date, pi_creditorId := ''DE98ZZZ09999999999'',
         pi_creditor := example_party \<rparr>"

definition example_transaction :: "int SepaTransaction" where
  "example_transaction =
     (createTransaction hundredths example_paymentInfo)
       \<lparr> tx_end2endId := ''E2E1'', tx_amount := 1250, tx_mandateId := ''M1'',
         tx_mandateSignatureDate := Some example_date, tx_debtor := example_party \<rparr>"

text \<open>
  A document object without blocks and a heap with four payment blocks and one
  transaction that are not attached yet; the block at address 3 and the transaction
  carry an override reference.
\<close>

definition example_document_object :: "(int, ref) SepaDocument_of" where
  "example_document_object =
     (new_SepaDocument hundredths None)
       \<lparr> doc_grpHdr := (new_SepaGroupHeader hundredths DEFAULT_PAIN_FORMAT)
                          \<lparr> gh_id := ''MSG1'', gh_created := Some example_date \<rparr> \<rparr>"

definition example_heap :: "int heap" where
  "example_heap =
     \<lparr> heap_transaction =
         Map.empty(0 \<mapsto> example_transaction \<lparr> tx_overrideReference := Some ''TX-9'' \<rparr>),
       heap_paymentInfo =
         Map.empty
           (0 \<mapsto> createPaymentInfo hundredths example_document_object,
            1 \<mapsto> createPaymentInfo hundredths example_document_object,
            2 \<mapsto> createPaymentInfo hundredths example_document_object,
            3 \<mapsto> (createPaymentInfo hundredths example_document_object)
                      \<lparr> pi_overrideReference := ''REF-7'' \<rparr>) \<rparr>"

definition example_long_address :: party where
  "example_long_address =
     example_party \<lparr> Street := Some (replicate 71 CHR ''a''), City := Some (replicate 71 CHR ''b'') \<rparr>"

definition example_groupHeader_v2 :: "int SepaGroupHeader" where
  "example_groupHeader_v2 = (doc_grpHdr example_document) \<lparr> gh_painFormat := ''pain.008.001.01'' \<rparr>"

definition example_paymentInfo_v2 :: "int SepaPaymentInfo" where
  "example_paymentInfo_v2 = example_paymentInfo \<lparr> pi_painFormat := ''pain.008.001.01'' \<rparr>"

definition example_mismatch_party :: party where
  "example_mismatch_party = example_party \<lparr> BIC := ''ABCDFRPPXXX'' \<rparr>"

definition example_zero_amount :: "int SepaTransaction" where
  "example_zero_amount = example_transaction \<lparr> tx_amount := 0, tx_debtor := example_mismatch_party \<rparr>"

definition example_zero_transfer :: "int SepaTransaction" where
  "example_zero_transfer =
     (new_SepaTransaction hundredths ''pain.001.001.03'')
       \<lparr> tx_end2endId := ''E2E2'', tx_amount := 0, tx_creditor := example_mismatch_party \<rparr>"

definition example_mismatch_paymentInfo :: "int SepaPaymentInfo" where
  "example_mismatch_paymentInfo = example_paymentInfo \<lparr> pi_creditor := example_mismatch_party \<rparr>"

definition example_mismatch_transfer :: "int SepaPaymentInfo" where
  "example_mismatch_transfer =
     (new_SepaPaymentInfo hundredths ''pain.001.001.03'')
       \<lparr> pi_requestedExecutionDate := Some example_date, pi_debtor := example_mismatch_party \<rparr>"

section \<open>Properties\<close>

subsection \<open>Checksum round trip\<close>

declare string_of_nat.simps [simp del]

lemma charCodeAt_digit_char: "d < 10 \<Longrightarrow> charCodeAt (digit_char d) = 48 + d"
  by (simp add: charCodeAt_def digit_char_def)

lemma is_digit_digit_char: "d < 10 \<Longrightarrow> is_digit (digit_char d)"
  by (simp add: is_digit_def charCodeAt_digit_char)

lemma string_of_nat_digits: "\<forall>c \<in> set (string_of_nat n). is_digit c"
proof (induction n rule: string_of_nat.induct)
  case (1 n)
  show ?case
  proof (cases "n < 10")
    case True
    then show ?thesis by (subst string_of_nat.simps) (simp add: is_digit_digit_char)
  next
    case False
    with 1 show ?thesis by (subst string_of_nat.simps) (simp add: is_digit_digit_char)
  qed
qed

lemma string_of_nat_two:
  assumes "10 \<le> n" "n < 100"
  shows "string_of_nat n = [digit_char (n div 10), digit_char (n mod 10)]"
proof -
  have "n div 10 < 10" using assms by simp
  then have "string_of_nat (n div 10) = [digit_char (n div 10)]"
    by (subst string_of_nat.simps) simp
  with assms show ?thesis by (subst string_of_nat.simps) simp
qed

lemma string_of_nat_one: "n < 10 \<Longrightarrow> string_of_nat n = [digit_char n]"
  by (subst string_of_nat.simps) simp

lemma replaceChars_loop_concat:
  "replaceChars_loop res s = res @ concat (map (\<lambda>c. replaceChars_loop [] [c]) s)"
  by (induction s arbitrary: res) (simp_all add: Let_def)

lemma replaceChars_append: "replaceChars (a @ b) = replaceChars a @ replaceChars b"
  unfolding replaceChars_def
  by (subst (1 2 3) replaceChars_loop_concat) simp

lemma replaceChars_digits_only: "\<forall>c \<in> set (replaceChars s). is_digit c"
  unfolding replaceChars_def
  by (subst replaceChars_loop_concat)
     (auto simp: Let_def is_digit_def dest: string_of_nat_digits [rule_format] split: if_splits)

lemma replaceChars_Cons: "replaceChars (c # cs) = replaceChars [c] @ replaceChars cs"
  unfolding replaceChars_def
  by (subst (1 2 3) replaceChars_loop_concat) simp

lemma replaceChars_digit: "is_digit c \<Longrightarrow> replaceChars [c] = [c]"
  by (simp add: replaceChars_def Let_def is_digit_def)

lemma replaceChars_digits: "\<forall>c \<in> set ds. is_digit c \<Longrightarrow> replaceChars ds = ds"
proof (induction ds)
  case Nil
  show ?case by (simp add: replaceChars_def)
next
  case (Cons c cs)
  then show ?case
    by (subst replaceChars_Cons) (simp add: replaceChars_digit)
qed

lemma parseInt_digit: "is_digit c \<Longrightarrow> parseInt [c] = Some (int (charCodeAt c) - 48)"
  by (auto simp: parseInt_def parse_digits_def is_digit_def is_space_def charCodeAt_def)

lemma txtMod97_loop_append:
  "txtMod97_loop res (a @ b) = txtMod97_loop (txtMod97_loop res a) b"
  by (induction a arbitrary: res) simp_all

lemma txtMod97_loop_digits:
  "\<forall>c \<in> set ds. is_digit c \<Longrightarrow> 0 \<le> r \<Longrightarrow> r < 97 \<Longrightarrow>
   \<exists>m. txtMod97_loop (Some r) ds = Some m \<and> 0 \<le> m \<and> m < 97"
proof (induction ds arbitrary: r)
  case Nil
  then show ?case by simp
next
  case (Cons c cs)
  from Cons.prems have d: "is_digit c" and cs: "\<forall>c \<in> set cs. is_digit c" by simp_all
  have "txtMod97_loop (Some r) (c # cs)
        = txtMod97_loop (Some ((r * 10 + (int (charCodeAt c) - 48)) mod 97)) cs"
    by (simp add: parseInt_digit [OF d])
  moreover have "\<exists>m. txtMod97_loop (Some ((r * 10 + (int (charCodeAt c) - 48)) mod 97)) cs = Some m
                   \<and> 0 \<le> m \<and> m < 97"
    by (rule Cons.IH [OF cs]) simp_all
  ultimately show ?case by simp
qed

lemma mod97_two: "((r * 10 + d1) mod 97 * 10 + d2) mod 97 = (r * 100 + (10 * d1 + d2)) mod (97::int)"
proof -
  have "((r * 10 + d1) mod 97 * 10) mod 97 = ((r * 10 + d1) * 10) mod 97"
    by (rule mod_mult_left_eq)
  then have "((r * 10 + d1) mod 97 * 10 + d2) mod 97 = ((r * 10 + d1) * 10 + d2) mod 97"
    by (rule mod_add_cong) simp
  also have "(r * 10 + d1) * 10 + d2 = r * 100 + (10 * d1 + d2)"
    by (simp add: algebra_simps)
  finally show ?thesis .
qed

lemma txtMod97_loop_two:
  assumes "d1 < 10" "d2 < 10"
  shows "txtMod97_loop (Some r) [digit_char d1, digit_char d2]
         = Some ((r * 100 + (10 * int d1 + int d2)) mod 97)"
proof -
  have p1: "parseInt [digit_char d1] = Some (int d1)"
    using assms by (simp add: parseInt_digit is_digit_digit_char charCodeAt_digit_char)
  have p2: "parseInt [digit_char d2] = Some (int d2)"
    using assms by (simp add: parseInt_digit is_digit_digit_char charCodeAt_digit_char)
  show ?thesis
    by (simp add: p1 p2 mod97_two)
qed

lemma substr_from: "substr s (int k) None = drop k s"
  by (simp add: substr_def Let_def min_def)

lemma substr_prefix: "substr s 0 (Some k) = take k s"
  by (simp add: substr_def Let_def)

lemma substr_from_4: "substr s 4 None = drop 4 s"
  using substr_from [of s 4] by simp

lemma substr_from_7: "substr s 7 None = drop 7 s"
  using substr_from [of s 7] by simp

lemma digit_char_0: "digit_char 0 = CHR ''0''"
  by (simp add: digit_char_def char_of_eq_iff)

lemma pad2:
  assumes "2 \<le> k" "k \<le> 98"
  shows "substr (''0'' @ string_of_number (Some k)) (- 2) (Some 2)
         = [digit_char (nat k div 10), digit_char (nat k mod 10)]"
proof (cases "k < 10")
  case True
  with assms have "string_of_nat (nat k) = [digit_char (nat k)]"
    by (simp add: string_of_nat_one)
  with True assms show ?thesis
    by (simp add: string_of_number_def string_of_int_def substr_def Let_def digit_char_0 [symmetric])
next
  case False
  with assms have "string_of_nat (nat k) = [digit_char (nat k div 10), digit_char (nat k mod 10)]"
    by (simp add: string_of_nat_two)
  with False assms show ?thesis
    by (simp add: string_of_number_def string_of_int_def substr_def Let_def)
qed

lemma mod97_check: "(x + (98 - x mod 97)) mod 97 = (1::int)"
proof -
  have e: "x + (98 - x mod 97) = 98 + 97 * (x div 97)"
    using minus_mod_eq_mult_div [of x 97] by linarith
  show ?thesis unfolding e by simp
qed

lemma checksum_core:
  fixes body :: string
  defines "dd \<equiv> substr (''0'' @ string_of_number
                      (map_option (\<lambda>m. 98 - m) (txtMod97 (replaceChars (body @ ''00'')))))
                    (- 2) (Some 2)"
  shows "txtMod97 (replaceChars (body @ dd)) = Some 1 \<and> length dd = 2"
proof -
  obtain m0 where m0: "txtMod97_loop (Some 0) (replaceChars body) = Some m0" "0 \<le> m0" "m0 < 97"
    using txtMod97_loop_digits [OF replaceChars_digits_only, of 0 body] by auto
  have zz: "''00'' = [digit_char 0, digit_char 0]"
    by (simp add: digit_char_0)
  have "replaceChars (body @ ''00'') = replaceChars body @ [digit_char 0, digit_char 0]"
    unfolding zz by (simp add: replaceChars_append replaceChars_digits is_digit_digit_char)
  moreover have "txtMod97_loop (Some m0) [digit_char 0, digit_char 0]
                 = Some ((m0 * 100 + (10 * int 0 + int 0)) mod 97)"
    by (rule txtMod97_loop_two) simp_all
  ultimately have md: "txtMod97 (replaceChars (body @ ''00'')) = Some ((m0 * 100) mod 97)"
    by (simp add: txtMod97_def txtMod97_loop_append m0 del: txtMod97_loop.simps)
  define k where "k = 98 - (m0 * 100) mod 97"
  have k: "2 \<le> k" "k \<le> 98"
    unfolding k_def by simp_all
  have dd: "dd = [digit_char (nat k div 10), digit_char (nat k mod 10)]"
    unfolding dd_def md using pad2 [OF k] by (simp add: k_def)
  have d1: "nat k div 10 < 10" and d2: "nat k mod 10 < 10"
    using k by simp_all
  have "replaceChars (body @ dd) = replaceChars body @ dd"
    unfolding dd using d1 d2
    by (simp add: replaceChars_append replaceChars_digits is_digit_digit_char)
  then have "txtMod97 (replaceChars (body @ dd))
             = Some ((m0 * 100 + (10 * int (nat k div 10) + int (nat k mod 10))) mod 97)"
    unfolding dd
    by (simp add: txtMod97_def txtMod97_loop_append m0 txtMod97_loop_two [OF d1 d2]
        del: txtMod97_loop.simps)
  also have "10 * int (nat k div 10) + int (nat k mod 10) = k"
    using k by (simp add: zdiv_int zmod_int)
  also have "(m0 * 100 + k) mod 97 = 1"
    unfolding k_def by (rule mod97_check)
  finally show ?thesis by (simp add: dd)
qed

lemma rotate_IBAN:
  assumes "length dd = 2"
  shows "substr (take 2 s @ dd @ drop 4 s) 4 None @ substr (take 2 s @ dd @ drop 4 s) 0 (Some 4)
         = (drop 4 s @ take 2 s) @ dd"
proof (cases "2 \<le> length s")
  case True
  then have "length (take 2 s) = 2" by simp
  with assms show ?thesis
    by (simp add: substr_from_4 substr_prefix)
next
  case False
  then have "drop 4 s = []" "take 2 s = s" by simp_all
  with assms False show ?thesis
    by (simp add: substr_from_4 substr_prefix)
qed

lemma rotate_CreditorID:
  assumes "length dd = 2"
  shows "substr (take 2 s @ dd @ drop 4 s) 7 None @ substr (take 2 s @ dd @ drop 4 s) 0 (Some 4)
         = (drop 7 s @ take 2 s) @ dd"
proof (cases "2 \<le> length s")
  case True
  then have "length (take 2 s) = 2" by simp
  with assms show ?thesis
    by (simp add: substr_from_7 substr_prefix)
next
  case False
  then have "drop 4 s = []" "drop 7 s = []" "take 2 s = s" by simp_all
  with assms False show ?thesis
    by (simp add: substr_from_7 substr_prefix)
qed

lemma validate_checksumIBAN: "validateIBAN (checksumIBAN iban)"
proof -
  define body where "body = drop 4 iban @ take 2 iban"
  define dd where "dd = substr (''0'' @ string_of_number
                      (map_option (\<lambda>m. 98 - m) (txtMod97 (replaceChars (body @ ''00'')))))
                    (- 2) (Some 2)"
  have core: "txtMod97 (replaceChars (body @ dd)) = Some 1" and len: "length dd = 2"
    using checksum_core [of body] unfolding dd_def by simp_all
  have out: "checksumIBAN iban = take 2 iban @ dd @ drop 4 iban"
    by (simp add: checksumIBAN_def Let_def substr_from_4 substr_prefix dd_def body_def)
  show ?thesis
    unfolding validateIBAN_def Let_def out rotate_IBAN [OF len]
    using core by (simp add: body_def)
qed

lemma validate_checksumCreditorID: "validateCreditorID (checksumCreditorID cid)"
proof -
  define body where "body = drop 7 cid @ take 2 cid"
  define dd where "dd = substr (''0'' @ string_of_number
                      (map_option (\<lambda>m. 98 - m) (txtMod97 (replaceChars (body @ ''00'')))))
                    (- 2) (Some 2)"
  have core: "txtMod97 (replaceChars (body @ dd)) = Some 1" and len: "length dd = 2"
    using checksum_core [of body] unfolding dd_def by simp_all
  have out: "checksumCreditorID cid = take 2 cid @ dd @ drop 4 cid"
    by (simp add: checksumCreditorID_def Let_def substr_from_4 substr_from_7 substr_prefix
        dd_def body_def)
  show ?thesis
    unfolding validateCreditorID_def Let_def out rotate_CreditorID [OF len]
    using core by (simp add: body_def)
qed

text \<open>
  C1. Checksum round trip: the IBAN that \<open>checksumIBAN\<close> returns passes \<open>validateIBAN\<close>,
  and the creditor identifier that \<open>checksumCreditorID\<close> returns passes
  \<open>validateCreditorID\<close>. This holds for every input string, so for every well-formed
  IBAN or creditor identifier with the check digits 00.
\<close>

theorem checksum_roundtrip:
  "validateIBAN (checksumIBAN iban) \<and> validateCreditorID (checksumCreditorID cid)"
  by (simp add: validate_checksumIBAN validate_checksumCreditorID)

text \<open>The example vectors of the doc comments.\<close>

lemma checksum_example_vectors:
  "checksumIBAN ''DE00123456781234567890'' = ''DE87123456781234567890''"
  "checksumCreditorID ''DE00ZZZ09999999999'' = ''DE98ZZZ09999999999''"
  by code_simp+

subsection \<open>The frame of checksumIBAN\<close>

lemma checksumIBAN_shape:
  "\<exists>dd. length dd = 2 \<and> checksumIBAN iban = take 2 iban @ dd @ drop 4 iban"
proof -
  define body where "body = drop 4 iban @ take 2 iban"
  define dd where "dd = substr (''0'' @ string_of_number
                      (map_option (\<lambda>m. 98 - m) (txtMod97 (replaceChars (body @ ''00'')))))
                    (- 2) (Some 2)"
  have "length dd = 2"
    using checksum_core [of body] unfolding dd_def by simp
  moreover have "checksumIBAN iban = take 2 iban @ dd @ drop 4 iban"
    by (simp add: checksumIBAN_def Let_def substr_from_4 substr_prefix dd_def body_def)
  ultimately show ?thesis by blast
qed

text \<open>
  C8. \<open>checksumIBAN\<close> is a function of its argument alone (it reads none of the two
  process-wide settings, so the same input gives the same output), and its result is the
  input with two characters put in place of the characters 3 and 4: for an input that has
  these positions, the length is kept and every character at another position is
  unchanged.
\<close>

theorem checksumIBAN_frame:
  "(\<exists>dd. length dd = 2 \<and> checksumIBAN iban = take 2 iban @ dd @ drop 4 iban) \<and>
   (4 \<le> length iban \<longrightarrow>
      length (checksumIBAN iban) = length iban \<and>
      (\<forall>i < length iban. i \<noteq> 2 \<and> i \<noteq> 3 \<longrightarrow> checksumIBAN iban ! i = iban ! i))"
proof (intro conjI impI allI)
  show "\<exists>dd. length dd = 2 \<and> checksumIBAN iban = take 2 iban @ dd @ drop 4 iban"
    by (rule checksumIBAN_shape)
next
  assume len: "4 \<le> length iban"
  obtain dd where dd: "length dd = 2" and out: "checksumIBAN iban = take 2 iban @ dd @ drop 4 iban"
    using checksumIBAN_shape by blast
  show "length (checksumIBAN iban) = length iban"
    using len dd by (simp add: out)
next
  fix i
  assume len: "4 \<le> length iban" and i: "i < length iban" and pos: "i \<noteq> 2 \<and> i \<noteq> 3"
  obtain dd where dd: "length dd = 2" and out: "checksumIBAN iban = take 2 iban @ dd @ drop 4 iban"
    using checksumIBAN_shape by blast
  show "checksumIBAN iban ! i = iban ! i"
  proof (cases "i < 2")
    case True
    with len show ?thesis by (simp add: out nth_append)
  next
    case False
    with pos have i4: "4 \<le> i" by arith
    have l4: "length (take 2 iban @ dd) = 4"
      using len dd by simp
    have "checksumIBAN iban ! i = ((take 2 iban @ dd) @ drop 4 iban) ! i"
      by (simp add: out)
    also have "\<dots> = drop 4 iban ! (i - 4)"
      using i4 by (simp only: nth_append l4) simp
    also have "\<dots> = iban ! i"
      using i4 len by simp
    finally show ?thesis .
  qed
qed

theorem checksumIBAN_frame_witness:
  "4 \<le> length ''DE00123456781234567890'' \<and>
   length (checksumIBAN ''DE00123456781234567890'') = length ''DE00123456781234567890'' \<and>
   checksumIBAN ''DE00123456781234567890'' ! 0 = CHR ''D'' \<and>
   checksumIBAN ''DE00123456781234567890'' ! 21 = CHR ''0''"
proof -
  have len: "4 \<le> length ''DE00123456781234567890''" by simp
  note fr = checksumIBAN_frame [of "''DE00123456781234567890''", THEN conjunct2, rule_format, OF len]
  have "checksumIBAN ''DE00123456781234567890'' ! 0 = ''DE00123456781234567890'' ! 0"
    by (rule fr [THEN conjunct2, rule_format]) simp_all
  moreover have "checksumIBAN ''DE00123456781234567890'' ! 21 = ''DE00123456781234567890'' ! 21"
    by (rule fr [THEN conjunct2, rule_format]) simp_all
  ultimately show ?thesis using fr [THEN conjunct1] by simp
qed

subsection \<open>Case-insensitivity of the checksum engine\<close>

lemma charCodeAt_upper_char:
  "97 \<le> charCodeAt c \<Longrightarrow> charCodeAt c \<le> 122 \<Longrightarrow> charCodeAt (upper_char c) = charCodeAt c - 32"
  by (simp add: upper_char_def) (simp add: charCodeAt_def)

lemma replaceChars_upper_char: "replaceChars [upper_char c] = replaceChars [c]"
proof (cases "97 \<le> charCodeAt c \<and> charCodeAt c \<le> 122")
  case True
  then have u: "charCodeAt (upper_char c) = charCodeAt c - 32"
    by (simp add: charCodeAt_upper_char)
  have "charCodeAt c - 32 - 55 = charCodeAt c - 87" by simp
  with True show ?thesis
    by (auto simp: replaceChars_def Let_def u)
next
  case False
  then have "upper_char c = c" by (auto simp: upper_char_def)
  then show ?thesis by simp
qed

lemma replaceChars_uppercase: "replaceChars (uppercase s) = replaceChars s"
proof (induction s)
  case Nil
  show ?case by (simp add: uppercase_def)
next
  case (Cons c cs)
  have "replaceChars (uppercase (c # cs)) = replaceChars [upper_char c] @ replaceChars (uppercase cs)"
    using replaceChars_Cons [of "upper_char c" "uppercase cs"] by (simp add: uppercase_def)
  also have "\<dots> = replaceChars [c] @ replaceChars cs"
    by (simp only: replaceChars_upper_char Cons.IH)
  also have "\<dots> = replaceChars (c # cs)"
    by (rule replaceChars_Cons [symmetric])
  finally show ?case .
qed

lemma substr_uppercase: "substr (uppercase s) start len = uppercase (substr s start len)"
  by (simp add: substr_def uppercase_def Let_def take_map drop_map split: option.splits)

lemma uppercase_append: "uppercase (a @ b) = uppercase a @ uppercase b"
  by (simp add: uppercase_def)

text \<open>
  C10. The letter replacement gives a lower-case letter the two digits of its upper-case
  letter, so \<open>validateIBAN\<close> gives the same answer on a string and on its upper-case form.
\<close>

theorem validateIBAN_uppercase:
  "replaceChars (uppercase s) = replaceChars s \<and> validateIBAN (uppercase s) = validateIBAN s"
proof
  show "replaceChars (uppercase s) = replaceChars s"
    by (rule replaceChars_uppercase)
  have "substr (uppercase s) 4 None @ substr (uppercase s) 0 (Some 4)
        = uppercase (substr s 4 None @ substr s 0 (Some 4))"
    by (simp only: substr_uppercase uppercase_append)
  then show "validateIBAN (uppercase s) = validateIBAN s"
    by (simp add: validateIBAN_def Let_def replaceChars_uppercase)
qed

theorem validateIBAN_uppercase_witness:
  "uppercase ''de87123456781234567890'' = ''DE87123456781234567890'' \<and>
   validateIBAN ''de87123456781234567890'' = validateIBAN ''DE87123456781234567890''"
proof -
  have u: "uppercase ''de87123456781234567890'' = ''DE87123456781234567890''"
    by (simp add: uppercase_def upper_char_def charCodeAt_def char_of_eq_iff)
  show ?thesis
    using validateIBAN_uppercase [of "''de87123456781234567890''"] by (simp add: u)
qed

subsection \<open>Normalization\<close>

lemma PaymentInfo_normalize_idem:
  "PaymentInfo_normalize ops (PaymentInfo_normalize ops p) = PaymentInfo_normalize ops p"
  by (simp add: PaymentInfo_normalize_def)

lemma Document_normalize_loop_blocks:
  "fst (Document_normalize_loop ops c k ps) = map (PaymentInfo_normalize ops) ps"
proof (induction ps arbitrary: c k)
  case Nil
  show ?case by simp
next
  case (Cons p ps)
  define c' where "c' = num_add ops c (pi_controlSum (PaymentInfo_normalize ops p))"
  define k' where "k' = k + transactionCount (PaymentInfo_normalize ops p)"
  obtain ps' c'' k'' where rec: "Document_normalize_loop ops c' k' ps = (ps', c'', k'')"
    by (cases "Document_normalize_loop ops c' k' ps") auto
  have "ps' = map (PaymentInfo_normalize ops) ps"
    using Cons.IH [of c' k'] rec by simp
  then show ?case
    using rec by (simp add: Let_def c'_def k'_def)
qed

lemma Document_normalize_loop_normalized:
  "Document_normalize_loop ops c k (map (PaymentInfo_normalize ops) ps)
   = Document_normalize_loop ops c k ps"
proof (induction ps arbitrary: c k)
  case Nil
  show ?case by simp
next
  case (Cons p ps)
  have "transactionCount (PaymentInfo_normalize ops p) = transactionCount p"
    by (simp add: transactionCount_def PaymentInfo_normalize_def)
  then show ?case
    by (simp add: Let_def PaymentInfo_normalize_idem Cons.IH)
qed

lemma Document_normalize_idem:
  "Document_normalize ops (Document_normalize ops d) = Document_normalize ops d"
proof -
  obtain ps c k where l: "Document_normalize_loop ops (num_zero ops) 0 (doc_paymentInfo d) = (ps, c, k)"
    by (cases "Document_normalize_loop ops (num_zero ops) 0 (doc_paymentInfo d)") auto
  have ps: "ps = map (PaymentInfo_normalize ops) (doc_paymentInfo d)"
    using Document_normalize_loop_blocks [of ops "num_zero ops" 0 "doc_paymentInfo d"] l by simp
  have "Document_normalize_loop ops (num_zero ops) 0 ps = (ps, c, k)"
    unfolding ps Document_normalize_loop_normalized using l ps by simp
  then show ?thesis
    by (simp add: Document_normalize_def l)
qed

text \<open>
  C4. Normalization is idempotent: a second run of \<open>normalize\<close> on the document that the
  first run left gives the same document, so the same control sum and transaction count
  on the group header and on every payment block. (It holds for every interpretation of
  the numbers, since each run computes the sums anew from the amounts.)
\<close>

theorem normalize_idempotent:
  "Document_normalize ops (Document_normalize ops d) = Document_normalize ops d \<and>
   gh_controlSum (doc_grpHdr (Document_normalize ops (Document_normalize ops d)))
     = gh_controlSum (doc_grpHdr (Document_normalize ops d)) \<and>
   gh_transactionCount (doc_grpHdr (Document_normalize ops (Document_normalize ops d)))
     = gh_transactionCount (doc_grpHdr (Document_normalize ops d)) \<and>
   map pi_controlSum (doc_paymentInfo (Document_normalize ops (Document_normalize ops d)))
     = map pi_controlSum (doc_paymentInfo (Document_normalize ops d)) \<and>
   map transactionCount (doc_paymentInfo (Document_normalize ops (Document_normalize ops d)))
     = map transactionCount (doc_paymentInfo (Document_normalize ops d)) \<and>
   PaymentInfo_normalize ops (PaymentInfo_normalize ops p) = PaymentInfo_normalize ops p"
  by (simp add: Document_normalize_idem PaymentInfo_normalize_idem)

subsection \<open>Identifier assignment\<close>

lemma string_of_nat_0: "string_of_nat 0 = ''0''"
  by (simp add: string_of_nat_one digit_char_0)

lemma string_of_nat_1: "string_of_nat (Suc 0) = ''1''"
proof -
  have "digit_char (Suc 0) = CHR ''1''"
    by (simp add: digit_char_def char_of_eq_iff)
  then show ?thesis by (simp add: string_of_nat_one)
qed

lemma string_of_nat_2: "string_of_nat (Suc (Suc 0)) = ''2''"
proof -
  have "digit_char (Suc (Suc 0)) = CHR ''2''"
    by (simp add: digit_char_def char_of_eq_iff)
  then show ?thesis by (simp add: string_of_nat_one)
qed

lemma Document_normalize_ids:
  "map pi_id (doc_paymentInfo (Document_normalize ops d)) = map pi_id (doc_paymentInfo d)"
proof -
  have "doc_paymentInfo (Document_normalize ops d)
        = fst (Document_normalize_loop ops (num_zero ops) 0 (doc_paymentInfo d))"
    by (simp add: Document_normalize_def split: prod.splits)
  then show ?thesis
    by (simp add: Document_normalize_loop_blocks PaymentInfo_normalize_def comp_def)
qed

lemma addPaymentInfo_fresh:
  assumes "heap_paymentInfo h r = Some q" "pi_id q = []" "pi_overrideReference q = []"
  shows "addPaymentInfo g h d r
         = Inr (h\<lparr> heap_paymentInfo := (heap_paymentInfo h)
                     (r \<mapsto> q\<lparr> pi_id := gh_id (doc_grpHdr d) @ ID_SEPARATOR g
                                         @ string_of_nat (length (doc_paymentInfo d)) \<rparr>) \<rparr>,
                d\<lparr> doc_paymentInfo := doc_paymentInfo d @ [r] \<rparr>)"
  using assms by (simp add: addPaymentInfo_def Let_def)

lemma paymentInfo_tree_id: "pi_id (paymentInfo_tree h p) = pi_id p"
  by (simp add: paymentInfo_tree_def)

lemma addPaymentInfo_three:
  assumes sep: "ID_SEPARATOR g = ''.''" and hdr: "gh_id (doc_grpHdr d) = ''MSG1''"
    and empty: "doc_paymentInfo d = []" and dist: "distinct [r1, r2, r3]"
    and q1: "heap_paymentInfo h r1 = Some q1" "pi_id q1 = []" "pi_overrideReference q1 = []"
    and q2: "heap_paymentInfo h r2 = Some q2" "pi_id q2 = []" "pi_overrideReference q2 = []"
    and q3: "heap_paymentInfo h r3 = Some q3" "pi_id q3 = []" "pi_overrideReference q3 = []"
  shows "\<exists>h1 d1 h2 d2 h3 d3.
           addPaymentInfo g h d r1 = Inr (h1, d1) \<and> addPaymentInfo g h1 d1 r2 = Inr (h2, d2) \<and>
           addPaymentInfo g h2 d2 r3 = Inr (h3, d3) \<and> doc_paymentInfo d3 = [r1, r2, r3] \<and>
           map pi_id (doc_paymentInfo (document_tree h3 d3)) = [''MSG1.0'', ''MSG1.1'', ''MSG1.2'']"
proof -
  define h1 where "h1 = h\<lparr> heap_paymentInfo := (heap_paymentInfo h)(r1 \<mapsto> q1\<lparr> pi_id := ''MSG1.0'' \<rparr>) \<rparr>"
  define d1 where "d1 = d\<lparr> doc_paymentInfo := [r1] \<rparr>"
  define h2 where "h2 = h1\<lparr> heap_paymentInfo := (heap_paymentInfo h1)(r2 \<mapsto> q2\<lparr> pi_id := ''MSG1.1'' \<rparr>) \<rparr>"
  define d2 where "d2 = d1\<lparr> doc_paymentInfo := [r1, r2] \<rparr>"
  define h3 where "h3 = h2\<lparr> heap_paymentInfo := (heap_paymentInfo h2)(r3 \<mapsto> q3\<lparr> pi_id := ''MSG1.2'' \<rparr>) \<rparr>"
  define d3 where "d3 = d2\<lparr> doc_paymentInfo := [r1, r2, r3] \<rparr>"
  have a1: "addPaymentInfo g h d r1 = Inr (h1, d1)"
    using addPaymentInfo_fresh [OF q1, of g d]
    by (simp add: sep hdr empty h1_def d1_def string_of_nat_0)
  have "heap_paymentInfo h1 r2 = Some q2"
    using dist q2(1) by (simp add: h1_def)
  from addPaymentInfo_fresh [OF this q2(2,3), of g d1]
  have a2: "addPaymentInfo g h1 d1 r2 = Inr (h2, d2)"
    by (simp add: sep hdr d1_def h2_def d2_def string_of_nat_1)
  have "heap_paymentInfo h2 r3 = Some q3"
    using dist q3(1) by (simp add: h1_def h2_def)
  from addPaymentInfo_fresh [OF this q3(2,3), of g d2]
  have a3: "addPaymentInfo g h2 d2 r3 = Inr (h3, d3)"
    by (simp add: sep hdr d1_def d2_def h3_def d3_def string_of_nat_2)
  have l: "doc_paymentInfo d3 = [r1, r2, r3]"
    by (simp add: d3_def)
  have m: "map pi_id (doc_paymentInfo (document_tree h3 d3)) = [''MSG1.0'', ''MSG1.1'', ''MSG1.2'']"
    using dist
    by (simp add: document_tree_def l List.map_filter_def h3_def h2_def h1_def paymentInfo_tree_id)
  show ?thesis
    by (intro exI conjI) (rule a1, rule a2, rule a3, rule l, rule m)
qed

text \<open>
  C3. Identifier assignment at attach time. Three payment blocks (three objects) without
  an id and without an override reference, attached to a document without blocks whose
  group header has the id MSG1, get the ids MSG1.0, MSG1.1 and MSG1.2 with the separator
  \<open>.\<close>; an override reference that is set becomes the id as it is, for a payment block
  and for a transaction. The id is assigned by the attach call and by nothing else: the
  constructors leave it empty; \<open>addPaymentInfo\<close> pushes the reference and changes the
  object that it is given only, \<open>addTransaction\<close> changes the transaction that it is
  given and the array of the receiver only; and normalization keeps every id.
\<close>

theorem id_assignment:
  "(ID_SEPARATOR g = ''.'' \<and> gh_id (doc_grpHdr d) = ''MSG1'' \<and> doc_paymentInfo d = [] \<and>
    distinct [r1, r2, r3] \<and>
    (\<forall>r \<in> {r1, r2, r3}.
        \<exists>q. heap_paymentInfo h r = Some q \<and> pi_id q = [] \<and> pi_overrideReference q = []) \<longrightarrow>
      (\<exists>h1 d1 h2 d2 h3 d3.
          addPaymentInfo g h d r1 = Inr (h1, d1) \<and> addPaymentInfo g h1 d1 r2 = Inr (h2, d2) \<and>
          addPaymentInfo g h2 d2 r3 = Inr (h3, d3) \<and> doc_paymentInfo d3 = [r1, r2, r3] \<and>
          map pi_id (doc_paymentInfo (document_tree h3 d3))
            = [''MSG1.0'', ''MSG1.1'', ''MSG1.2''])) \<and>
   (heap_paymentInfo h r = Some q \<and> pi_overrideReference q \<noteq> [] \<longrightarrow>
      (\<exists>h' d'. addPaymentInfo g h d r = Inr (h', d') \<and>
          map_option pi_id (heap_paymentInfo h' r) = Some (pi_overrideReference q))) \<and>
   (heap_paymentInfo h r = Some q \<and> heap_transaction h tr = Some t \<and>
    tx_overrideReference t = Some ovr \<and> ovr \<noteq> [] \<longrightarrow>
      (\<exists>h'. addTransaction g h r tr = Inr h' \<and>
          map_option tx_id (heap_transaction h' tr) = Some ovr)) \<and>
   pi_id (new_SepaPaymentInfo ops fmt :: ('n, ref) SepaPaymentInfo_of) = [] \<and>
   tx_id (new_SepaTransaction ops fmt) = [] \<and>
   (addPaymentInfo g h d r = Inr (ha, da) \<longrightarrow>
      doc_paymentInfo da = doc_paymentInfo d @ [r] \<and>
      (\<forall>r'. r' \<noteq> r \<longrightarrow> heap_paymentInfo ha r' = heap_paymentInfo h r') \<and>
      heap_transaction ha = heap_transaction h) \<and>
   (addTransaction g h r tr = Inr hb \<longrightarrow>
      map_option pi_payments (heap_paymentInfo hb r)
        = map_option (\<lambda>p. pi_payments p @ [tr]) (heap_paymentInfo h r) \<and>
      map_option pi_id (heap_paymentInfo hb r) = map_option pi_id (heap_paymentInfo h r) \<and>
      (\<forall>r'. r' \<noteq> r \<longrightarrow> heap_paymentInfo hb r' = heap_paymentInfo h r') \<and>
      (\<forall>r'. r' \<noteq> tr \<longrightarrow> heap_transaction hb r' = heap_transaction h r')) \<and>
   map pi_id (doc_paymentInfo (Document_normalize ops dt)) = map pi_id (doc_paymentInfo dt) \<and>
   map tx_id (pi_payments (PaymentInfo_normalize ops pt)) = map tx_id (pi_payments pt)"
proof (intro conjI impI)
  assume a: "ID_SEPARATOR g = ''.'' \<and> gh_id (doc_grpHdr d) = ''MSG1'' \<and> doc_paymentInfo d = [] \<and>
    distinct [r1, r2, r3] \<and>
    (\<forall>r \<in> {r1, r2, r3}.
        \<exists>q. heap_paymentInfo h r = Some q \<and> pi_id q = [] \<and> pi_overrideReference q = [])"
  then obtain q1 q2 q3 where
    "heap_paymentInfo h r1 = Some q1" "pi_id q1 = []" "pi_overrideReference q1 = []"
    "heap_paymentInfo h r2 = Some q2" "pi_id q2 = []" "pi_overrideReference q2 = []"
    "heap_paymentInfo h r3 = Some q3" "pi_id q3 = []" "pi_overrideReference q3 = []"
    by auto
  with a show "\<exists>h1 d1 h2 d2 h3 d3.
          addPaymentInfo g h d r1 = Inr (h1, d1) \<and> addPaymentInfo g h1 d1 r2 = Inr (h2, d2) \<and>
          addPaymentInfo g h2 d2 r3 = Inr (h3, d3) \<and> doc_paymentInfo d3 = [r1, r2, r3] \<and>
          map pi_id (doc_paymentInfo (document_tree h3 d3))
            = [''MSG1.0'', ''MSG1.1'', ''MSG1.2'']"
    using addPaymentInfo_three [of g d r1 r2 r3 h q1 q2 q3] by blast
next
  assume "heap_paymentInfo h r = Some q \<and> pi_overrideReference q \<noteq> []"
  then show "\<exists>h' d'. addPaymentInfo g h d r = Inr (h', d') \<and>
          map_option pi_id (heap_paymentInfo h' r) = Some (pi_overrideReference q)"
    by (simp add: addPaymentInfo_def Let_def)
next
  assume "heap_paymentInfo h r = Some q \<and> heap_transaction h tr = Some t \<and>
    tx_overrideReference t = Some ovr \<and> ovr \<noteq> []"
  then show "\<exists>h'. addTransaction g h r tr = Inr h' \<and>
          map_option tx_id (heap_transaction h' tr) = Some ovr"
    by (simp add: addTransaction_def Let_def)
next
  show "pi_id (new_SepaPaymentInfo ops fmt :: ('n, ref) SepaPaymentInfo_of) = []"
    by (simp add: new_SepaPaymentInfo_def)
next
  show "tx_id (new_SepaTransaction ops fmt) = []"
    by (simp add: new_SepaTransaction_def)
next
  assume "addPaymentInfo g h d r = Inr (ha, da)"
  then show "doc_paymentInfo da = doc_paymentInfo d @ [r]"
    "\<forall>r'. r' \<noteq> r \<longrightarrow> heap_paymentInfo ha r' = heap_paymentInfo h r'"
    "heap_transaction ha = heap_transaction h"
    by (auto simp: addPaymentInfo_def Let_def split: option.splits if_splits)
next
  assume "addTransaction g h r tr = Inr hb"
  then show "map_option pi_payments (heap_paymentInfo hb r)
        = map_option (\<lambda>p. pi_payments p @ [tr]) (heap_paymentInfo h r)"
    "map_option pi_id (heap_paymentInfo hb r) = map_option pi_id (heap_paymentInfo h r)"
    "\<forall>r'. r' \<noteq> r \<longrightarrow> heap_paymentInfo hb r' = heap_paymentInfo h r'"
    "\<forall>r'. r' \<noteq> tr \<longrightarrow> heap_transaction hb r' = heap_transaction h r'"
    by (auto simp: addTransaction_def Let_def split: option.splits if_splits)
next
  show "map pi_id (doc_paymentInfo (Document_normalize ops dt)) = map pi_id (doc_paymentInfo dt)"
    by (rule Document_normalize_ids)
next
  show "map tx_id (pi_payments (PaymentInfo_normalize ops pt)) = map tx_id (pi_payments pt)"
    by (simp add: PaymentInfo_normalize_def)
qed

lemma example_heap_facts:
  "ID_SEPARATOR initial_globals = ''.''"
  "gh_id (doc_grpHdr example_document_object) = ''MSG1''"
  "doc_paymentInfo example_document_object = []"
  "heap_paymentInfo example_heap 0 = Some (createPaymentInfo hundredths example_document_object)"
  "heap_paymentInfo example_heap (Suc 0) = Some (createPaymentInfo hundredths example_document_object)"
  "heap_paymentInfo example_heap 2 = Some (createPaymentInfo hundredths example_document_object)"
  "heap_paymentInfo example_heap 3
     = Some ((createPaymentInfo hundredths example_document_object)
               \<lparr> pi_overrideReference := ''REF-7'' \<rparr>)"
  "heap_transaction example_heap 0
     = Some (example_transaction \<lparr> tx_overrideReference := Some ''TX-9'' \<rparr>)"
  "pi_id (createPaymentInfo hundredths example_document_object :: (int, ref) SepaPaymentInfo_of) = []"
  "pi_overrideReference
     (createPaymentInfo hundredths example_document_object :: (int, ref) SepaPaymentInfo_of) = []"
  "pi_payments
     (createPaymentInfo hundredths example_document_object :: (int, ref) SepaPaymentInfo_of) = []"
  by (simp_all add: initial_globals_def example_document_object_def new_SepaDocument_def Let_def
      example_heap_def createPaymentInfo_def new_SepaPaymentInfo_def)

lemma example_attachments:
  "\<not> isl (addPaymentInfo initial_globals example_heap example_document_object 3)"
  "\<not> isl (addTransaction initial_globals example_heap 3 0)"
  by (simp_all add: addPaymentInfo_def addTransaction_def Let_def example_heap_facts)

theorem id_assignment_witness:
  "distinct [0, 1, 2 :: ref] \<and>
   (\<exists>h1 d1 h2 d2 h3 d3.
       addPaymentInfo initial_globals example_heap example_document_object 0 = Inr (h1, d1) \<and>
       addPaymentInfo initial_globals h1 d1 1 = Inr (h2, d2) \<and>
       addPaymentInfo initial_globals h2 d2 2 = Inr (h3, d3) \<and>
       doc_paymentInfo d3 = [0, 1, 2] \<and>
       map pi_id (doc_paymentInfo (document_tree h3 d3)) = [''MSG1.0'', ''MSG1.1'', ''MSG1.2'']) \<and>
   (\<exists>h' d'. addPaymentInfo initial_globals example_heap example_document_object 3 = Inr (h', d') \<and>
       map_option pi_id (heap_paymentInfo h' 3) = Some ''REF-7'') \<and>
   (\<exists>h'. addTransaction initial_globals example_heap 3 0 = Inr h' \<and>
       map_option tx_id (heap_transaction h' 0) = Some ''TX-9'') \<and>
   doc_paymentInfo (snd (projr (addPaymentInfo initial_globals example_heap example_document_object 3)))
     = [3] \<and>
   map_option pi_payments
     (heap_paymentInfo (projr (addTransaction initial_globals example_heap 3 0)) 3) = Some [0]"
  using id_assignment
    [of initial_globals example_document_object 0 1 2 example_heap 3
        "(createPaymentInfo hundredths example_document_object) \<lparr> pi_overrideReference := ''REF-7'' \<rparr>"
        0 "example_transaction \<lparr> tx_overrideReference := Some ''TX-9'' \<rparr>" "''TX-9''"
        hundredths "[]"
        "fst (projr (addPaymentInfo initial_globals example_heap example_document_object 3))"
        "snd (projr (addPaymentInfo initial_globals example_heap example_document_object 3))"
        "projr (addTransaction initial_globals example_heap 3 0)"
        example_document example_paymentInfo]
  by (simp add: example_heap_facts example_attachments)

text \<open>
  The same object attached twice: the second call finds the id that the first one
  assigned, prefixes it again, and both entries of the array show the new id.
\<close>

lemma attach_same_object_twice:
  "\<exists>h1 d1 h2 d2.
     addPaymentInfo initial_globals example_heap example_document_object 0 = Inr (h1, d1) \<and>
     addPaymentInfo initial_globals h1 d1 0 = Inr (h2, d2) \<and>
     map pi_id (doc_paymentInfo (document_tree h2 d2)) = [''MSG1.MSG1.0'', ''MSG1.MSG1.0'']"
  by (simp add: addPaymentInfo_def Let_def example_heap_facts document_tree_def
      List.map_filter_def paymentInfo_tree_id string_of_nat_0)

subsection \<open>The cross-field counterparty check\<close>

lemma example_IBAN_valid: "validateIBAN ''DE87123456781234567890''"
  by code_simp

lemma example_creditorId_valid: "validateCreditorID ''DE98ZZZ09999999999''"
  by code_simp

lemma trim_Nil: "trim [] = []"
  by (simp add: trim_def)

lemma debitor_length_step_eq:
  "debitor_length_step v k field st
   = (if too_long v k then (''debitor '' @ field @ '' is too long.'', snd st @ [field]) else st)"
  by (simp add: debitor_length_step_def)

lemma debitor_name_step_eq:
  "debitor_name_step name pullFrom st
   = (if trim name = []
      then (pullFrom @ '' has invalid name: '' @ dquote @ name @ dquote, snd st @ [pullFrom @ ''Name''])
      else st)"
  by (auto simp: debitor_name_step_def assert_name_def trim_Nil)

lemma substr_4_2: "substr bic 4 (Some 2) = take 2 (drop 4 bic)"
  by (simp add: substr_def Let_def min_def)

lemma debitor_account_step_eq:
  "debitor_account_step name iban bic pullFrom st
   = (if account_violation iban bic
      then (''country mismatch in BIC/IBAN for '' @ pullFrom @ '' called '' @ name
              @ '' with BIC: '' @ bic @ '' and IBAN: '' @ iban, snd st @ [''IBAN/BIC''])
      else st)"
  by (auto simp: debitor_account_step_def account_violation_def assert_iban_def assert_fixed_def
      assert_def substr_4_2 substr_prefix)

lemma too_long_name: "too_long (Some s) 70 = (70 < length s)"
  by (auto simp: too_long_def)

text \<open>
  C5, as the code has it. A counterparty with at least one violation makes the check
  raise one \<open>InvalidSupplierError\<close> with the name of the counterparty, a list that names
  the field of every violated rule, and the message of the last violated rule in the
  order of the checks.
\<close>

theorem assert_debitor_reports_all_last_message:
  "counterparty_violations p pullFrom \<noteq> [] \<Longrightarrow>
   \<exists>fields. assert_debitor p pullFrom
              = Inl (InvalidSupplierError (Name p) fields
                       (snd (last (counterparty_violations p pullFrom))))
            \<and> set fields = set (map fst (counterparty_violations p pullFrom))"
  unfolding assert_debitor_def counterparty_violations_def Let_def
    debitor_length_step_eq debitor_name_step_eq debitor_account_step_eq too_long_name
  by (auto split: if_splits)

lemma example_long_address_violations:
  "counterparty_violations example_long_address ''creditor''
   = [(''street'', ''debitor street is too long.''), (''city'', ''debitor city is too long.'')]"
  by (simp add: counterparty_violations_def example_long_address_def example_party_def
      too_long_def account_violation_def example_IBAN_valid trim_def is_space_def charCodeAt_def)

theorem assert_debitor_reports_all_last_message_witness:
  "counterparty_violations example_long_address ''creditor'' \<noteq> [] \<and>
   (\<exists>fields. assert_debitor example_long_address ''creditor''
               = Inl (InvalidSupplierError ''ACME'' fields ''debitor city is too long.'')
             \<and> set fields = {''street'', ''city''})"
proof -
  have ne: "counterparty_violations example_long_address ''creditor'' \<noteq> []"
    by (simp add: example_long_address_violations)
  have nm: "Name example_long_address = ''ACME''"
    by (simp add: example_long_address_def example_party_def)
  show ?thesis
    using assert_debitor_reports_all_last_message [OF ne] ne
    by (simp add: example_long_address_violations nm insert_commute)
qed

text \<open>
  The claim C5 as the specification states it fails: for a counterparty whose street and
  city are both too long, the error carries the message of the city, the second violation,
  and not the message of the street, the first one.
\<close>

theorem assert_debitor_first_message_counterexample:
  "assert_debitor example_long_address ''creditor''
     = Inl (InvalidSupplierError ''ACME'' [''street'', ''city''] ''debitor city is too long.'') \<and>
   map snd (counterparty_violations example_long_address ''creditor'')
     = [''debitor street is too long.'', ''debitor city is too long.'']"
  by (simp add: example_long_address_violations)
     (simp add: assert_debitor_def Let_def debitor_length_step_eq debitor_name_step_eq
        debitor_account_step_eq example_long_address_def example_party_def
        too_long_def account_violation_def example_IBAN_valid trim_def is_space_def charCodeAt_def)

subsection \<open>The minimum-count check and the charset checks\<close>

lemma assert_length_of_number: "assert_length (Num k) lo hi member = Inr ()"
  by (simp add: assert_length_def js_length_def split: option.splits)

text \<open>
  C6. The minimum-count check is \<open>assert_length(this._payments.length, 1, null, ...)\<close>:
  it is given the number of transactions, whose \<open>length\<close> is undefined, so it never
  fails. A payment block with valid fields and no transaction passes \<open>validate\<close> and is
  rendered, with validation enabled, without any transaction node.
\<close>

theorem PaymentInfo_validate_accepts_no_transactions:
  "pi_payments example_paymentInfo = [] \<and>
   assert_length (Num (length (pi_payments example_paymentInfo))) (Some 1) None ''_payments'' = Inr () \<and>
   PaymentInfo_validate example_paymentInfo = Inr () \<and>
   VALIDATIONS_ENABLED initial_globals \<and>
   map_sum id child_tags (PaymentInfo_toXML initial_globals hundredths example_paymentInfo)
     = Inr [''PmtInfId'', ''PmtMtd'', ''BtchBookg'', ''NbOfTxs'', ''CtrlSum'', ''PmtTpInf'',
            ''ReqdColltnDt'', ''Cdtr'', ''CdtrAcct'', ''CdtrAgt'', ''ChrgBr'', ''CdtrSchmeId'']"
  by code_simp

lemma regex_search_one: "0 < hi \<Longrightarrow> regex_search cls (Suc 0) hi s = (\<exists>c \<in> set s. cls c)"
proof (induction s)
  case Nil
  then show ?case by (cases hi) simp_all
next
  case (Cons c cs)
  then show ?case by (cases hi) auto
qed

lemma assert_sepa_id_set1_passes:
  "(assert_sepa_id_set1 str member = Inr ()) = (str = [] \<or> (\<exists>c \<in> set str. sepa_id_set1 c))"
  by (simp add: assert_sepa_id_set1_def regex_search_one)

lemma assert_sepa_id_set2_passes:
  "(assert_sepa_id_set2 str member = Inr ()) = (str = [] \<or> (\<exists>c \<in> set str. sepa_id_set2 c))"
  by (simp add: assert_sepa_id_set2_def regex_search_one)

text \<open>
  C7. The regular expressions of the charset checks have no anchors, so a value passes as
  soon as one of its characters is in the class. The value \<open>A#\<close> holds \<open>#\<close>, which is in
  neither class, and passes both checks; a transaction with this end-to-end id and
  mandate id passes \<open>validate\<close>.
\<close>

theorem charset_check_accepts_foreign_character:
  "\<not> sepa_id_set1 CHR ''#'' \<and> \<not> sepa_id_set2 CHR ''#'' \<and>
   assert_sepa_id_set1 ''A#'' ''end2endId'' = Inr () \<and>
   assert_sepa_id_set2 ''A#'' ''mandateId'' = Inr () \<and>
   Transaction_validate hundredths
     (example_transaction \<lparr> tx_end2endId := ''A#'', tx_mandateId := ''A#'' \<rparr>) = Inr ()"
  by code_simp

subsection \<open>Version gating\<close>

lemma tags_append:
  "List.map_filter tag_of (xs @ ys) = List.map_filter tag_of xs @ List.map_filter tag_of ys"
  by (simp add: List.map_filter_def)

lemma tags_nest: "List.map_filter tag_of (nest (t # ts) attrs inner) = [t]"
  by (cases ts) (simp_all add: List.map_filter_def)

lemma tags_xml_r: "List.map_filter tag_of (xml_r (t # ts) v) = [t]"
  by (simp add: xml_r_def createXMLHelper_def tags_nest)

lemma tags_xml_n: "List.map_filter tag_of (xml_n (t # ts) later) = [t]"
  by (simp add: xml_n_def createXMLHelper_def tags_nest)

lemma tags_Nil: "List.map_filter tag_of [] = []"
  by (simp add: List.map_filter_def)

lemma Transaction_toXML_tag:
  "Transaction_toXML g ops t = Inr x \<Longrightarrow> tag_of x = Some (TransactionTypes_name (tx_type t))"
  by (auto simp: Transaction_toXML_def Let_def split: sum.splits if_splits)

lemma Transactions_toXML_tags:
  "Transactions_toXML g ops ts = Inr xs \<Longrightarrow>
   List.map_filter tag_of xs = map (\<lambda>t. TransactionTypes_name (tx_type t)) ts"
proof (induction ts arbitrary: xs)
  case Nil
  then show ?case by (simp add: tags_Nil)
next
  case (Cons t ts)
  then obtain y ys where y: "Transaction_toXML g ops t = Inr y"
    and ys: "Transactions_toXML g ops ts = Inr ys" and xs: "xs = y # ys"
    by (auto split: sum.splits)
  show ?case
    using Cons.IH [OF ys] Transaction_toXML_tag [OF y]
    by (simp add: xs List.map_filter_def)
qed

lemma GroupHeader_child_tags:
  "GroupHeader_toXML ops gh = Inr x \<Longrightarrow>
   child_tags x
   = [''MsgId'', ''CreDtTm'']
     @ (if getPainXMLVersion (gh_painFormat gh) = Some 2 then [''BtchBookg''] else [])
     @ [''NbOfTxs'', ''CtrlSum'']
     @ (if getPainXMLVersion (gh_painFormat gh) = Some 2 then [''Grpg''] else [])
     @ [''InitgPty'']"
  by (auto simp: GroupHeader_toXML_def Let_def child_tags_def tags_append tags_xml_r tags_xml_n
      tags_Nil split: sum.splits)

lemma PaymentInfo_child_tags:
  "PaymentInfo_toXML g ops p = Inr y \<Longrightarrow>
   child_tags y
   = [''PmtInfId'', ''PmtMtd'']
     @ (if getPainXMLVersion (pi_painFormat p) = Some 3
        then [''BtchBookg'', ''NbOfTxs'', ''CtrlSum''] else [])
     @ [''PmtTpInf'']
     @ (if pi_method p = PaymentInfoTypes_DirectDebit
        then [''ReqdColltnDt'', ''Cdtr'', ''CdtrAcct'', ''CdtrAgt'', ''ChrgBr'', ''CdtrSchmeId'']
        else [''ReqdExctnDt'', ''Dbtr'', ''DbtrAcct'', ''DbtrAgt'', ''ChrgBr''])
     @ map (\<lambda>t. TransactionTypes_name (tx_type t)) (pi_payments p)"
proof -
  assume r: "PaymentInfo_toXML g ops p = Inr y"
  then obtain xs where xs: "Transactions_toXML g ops (pi_payments p) = Inr xs"
    by (auto simp: PaymentInfo_toXML_def Let_def split: sum.splits)
  note tx = Transactions_toXML_tags [OF xs]
  show ?thesis
  proof (cases "pi_method p = PaymentInfoTypes_DirectDebit")
    case True
    with r xs tx show ?thesis
      by (auto simp: PaymentInfo_toXML_def Let_def child_tags_def tags_append tags_xml_r
          tags_xml_n tags_Nil split: sum.splits)
  next
    case False
    with r xs tx show ?thesis
      by (auto simp: PaymentInfo_toXML_def Let_def child_tags_def tags_append tags_xml_r
          tags_xml_n tags_Nil split: sum.splits)
  qed
qed

lemma gated_not_transaction_tag:
  "s \<in> {''BtchBookg'', ''Grpg'', ''NbOfTxs'', ''CtrlSum''} \<Longrightarrow>
   s \<notin> set (map (\<lambda>t. TransactionTypes_name (tx_type t)) ts)"
  by (induction ts) (auto simp: TransactionTypes_name_def split: TransactionTypes.splits)

text \<open>
  C2, as the code has it. Under schema version 2 the group header carries \<open>BtchBookg\<close>,
  \<open>Grpg\<close>, \<open>NbOfTxs\<close> and \<open>CtrlSum\<close> and a payment block carries none of them. Under
  version 3 a payment block carries \<open>BtchBookg\<close>, \<open>NbOfTxs\<close> and \<open>CtrlSum\<close>; the group
  header has neither \<open>BtchBookg\<close> nor \<open>Grpg\<close> but still carries \<open>NbOfTxs\<close> and
  \<open>CtrlSum\<close>, and no payment block carries \<open>Grpg\<close>.
\<close>

theorem version_gating_by_level:
  "(getPainXMLVersion (gh_painFormat gh2) = Some 2 \<and> GroupHeader_toXML ops gh2 = Inr x2 \<longrightarrow>
      ''BtchBookg'' \<in> set (child_tags x2) \<and> ''Grpg'' \<in> set (child_tags x2) \<and>
      ''NbOfTxs'' \<in> set (child_tags x2) \<and> ''CtrlSum'' \<in> set (child_tags x2)) \<and>
   (getPainXMLVersion (pi_painFormat p2) = Some 2 \<and> PaymentInfo_toXML g ops p2 = Inr y2 \<longrightarrow>
      ''BtchBookg'' \<notin> set (child_tags y2) \<and> ''Grpg'' \<notin> set (child_tags y2) \<and>
      ''NbOfTxs'' \<notin> set (child_tags y2) \<and> ''CtrlSum'' \<notin> set (child_tags y2)) \<and>
   (getPainXMLVersion (gh_painFormat gh3) = Some 3 \<and> GroupHeader_toXML ops gh3 = Inr x3 \<longrightarrow>
      ''BtchBookg'' \<notin> set (child_tags x3) \<and> ''Grpg'' \<notin> set (child_tags x3) \<and>
      ''NbOfTxs'' \<in> set (child_tags x3) \<and> ''CtrlSum'' \<in> set (child_tags x3)) \<and>
   (getPainXMLVersion (pi_painFormat p3) = Some 3 \<and> PaymentInfo_toXML g ops p3 = Inr y3 \<longrightarrow>
      ''BtchBookg'' \<in> set (child_tags y3) \<and> ''Grpg'' \<notin> set (child_tags y3) \<and>
      ''NbOfTxs'' \<in> set (child_tags y3) \<and> ''CtrlSum'' \<in> set (child_tags y3))"
proof (intro conjI impI)
  assume "getPainXMLVersion (gh_painFormat gh2) = Some 2 \<and> GroupHeader_toXML ops gh2 = Inr x2"
  then have t: "child_tags x2
      = [''MsgId'', ''CreDtTm'', ''BtchBookg'', ''NbOfTxs'', ''CtrlSum'', ''Grpg'', ''InitgPty'']"
    using GroupHeader_child_tags [of ops gh2 x2] by simp
  show "''BtchBookg'' \<in> set (child_tags x2)" "''Grpg'' \<in> set (child_tags x2)"
    "''NbOfTxs'' \<in> set (child_tags x2)" "''CtrlSum'' \<in> set (child_tags x2)"
    by (simp_all add: t)
next
  assume "getPainXMLVersion (gh_painFormat gh3) = Some 3 \<and> GroupHeader_toXML ops gh3 = Inr x3"
  then have t: "child_tags x3 = [''MsgId'', ''CreDtTm'', ''NbOfTxs'', ''CtrlSum'', ''InitgPty'']"
    using GroupHeader_child_tags [of ops gh3 x3] by simp
  show "''BtchBookg'' \<notin> set (child_tags x3)" "''Grpg'' \<notin> set (child_tags x3)"
    "''NbOfTxs'' \<in> set (child_tags x3)" "''CtrlSum'' \<in> set (child_tags x3)"
    by (simp_all add: t)
next
  assume a: "getPainXMLVersion (pi_painFormat p2) = Some 2 \<and> PaymentInfo_toXML g ops p2 = Inr y2"
  then have t: "child_tags y2
      = [''PmtInfId'', ''PmtMtd'', ''PmtTpInf'']
        @ (if pi_method p2 = PaymentInfoTypes_DirectDebit
           then [''ReqdColltnDt'', ''Cdtr'', ''CdtrAcct'', ''CdtrAgt'', ''ChrgBr'', ''CdtrSchmeId'']
           else [''ReqdExctnDt'', ''Dbtr'', ''DbtrAcct'', ''DbtrAgt'', ''ChrgBr''])
        @ map (\<lambda>t. TransactionTypes_name (tx_type t)) (pi_payments p2)"
    using PaymentInfo_child_tags [of g ops p2 y2] by simp
  show "''BtchBookg'' \<notin> set (child_tags y2)"
    using gated_not_transaction_tag [of "''BtchBookg''" "pi_payments p2"] by (simp add: t)
  show "''Grpg'' \<notin> set (child_tags y2)"
    using gated_not_transaction_tag [of "''Grpg''" "pi_payments p2"] by (simp add: t)
  show "''NbOfTxs'' \<notin> set (child_tags y2)"
    using gated_not_transaction_tag [of "''NbOfTxs''" "pi_payments p2"] by (simp add: t)
  show "''CtrlSum'' \<notin> set (child_tags y2)"
    using gated_not_transaction_tag [of "''CtrlSum''" "pi_payments p2"] by (simp add: t)
next
  assume a: "getPainXMLVersion (pi_painFormat p3) = Some 3 \<and> PaymentInfo_toXML g ops p3 = Inr y3"
  then have t: "child_tags y3
      = [''PmtInfId'', ''PmtMtd'', ''BtchBookg'', ''NbOfTxs'', ''CtrlSum'', ''PmtTpInf'']
        @ (if pi_method p3 = PaymentInfoTypes_DirectDebit
           then [''ReqdColltnDt'', ''Cdtr'', ''CdtrAcct'', ''CdtrAgt'', ''ChrgBr'', ''CdtrSchmeId'']
           else [''ReqdExctnDt'', ''Dbtr'', ''DbtrAcct'', ''DbtrAgt'', ''ChrgBr''])
        @ map (\<lambda>t. TransactionTypes_name (tx_type t)) (pi_payments p3)"
    using PaymentInfo_child_tags [of g ops p3 y3] by simp
  show "''BtchBookg'' \<in> set (child_tags y3)" "''NbOfTxs'' \<in> set (child_tags y3)"
    "''CtrlSum'' \<in> set (child_tags y3)"
    by (simp_all add: t)
  show "''Grpg'' \<notin> set (child_tags y3)"
    using gated_not_transaction_tag [of "''Grpg''" "pi_payments p3"] by (simp add: t)
qed

lemma example_renderings:
  "\<not> isl (GroupHeader_toXML hundredths example_groupHeader_v2)"
  "\<not> isl (PaymentInfo_toXML initial_globals hundredths example_paymentInfo_v2)"
  "\<not> isl (GroupHeader_toXML hundredths (doc_grpHdr example_document))"
  "\<not> isl (PaymentInfo_toXML initial_globals hundredths example_paymentInfo)"
  by code_simp+

lemma example_versions:
  "getPainXMLVersion (gh_painFormat example_groupHeader_v2) = Some 2"
  "getPainXMLVersion (pi_painFormat example_paymentInfo_v2) = Some 2"
  "getPainXMLVersion (gh_painFormat (doc_grpHdr example_document)) = Some 3"
  "getPainXMLVersion (pi_painFormat example_paymentInfo) = Some 3"
  by code_simp+

theorem version_gating_by_level_witness:
  "getPainXMLVersion (gh_painFormat example_groupHeader_v2) = Some 2 \<and>
   getPainXMLVersion (pi_painFormat example_paymentInfo_v2) = Some 2 \<and>
   getPainXMLVersion (gh_painFormat (doc_grpHdr example_document)) = Some 3 \<and>
   getPainXMLVersion (pi_painFormat example_paymentInfo) = Some 3 \<and>
   ''Grpg'' \<in> set (child_tags (projr (GroupHeader_toXML hundredths example_groupHeader_v2))) \<and>
   ''CtrlSum'' \<notin> set (child_tags
       (projr (PaymentInfo_toXML initial_globals hundredths example_paymentInfo_v2))) \<and>
   ''BtchBookg'' \<notin> set (child_tags
       (projr (GroupHeader_toXML hundredths (doc_grpHdr example_document)))) \<and>
   ''BtchBookg'' \<in> set (child_tags
       (projr (PaymentInfo_toXML initial_globals hundredths example_paymentInfo)))"
  using version_gating_by_level
    [of example_groupHeader_v2 hundredths
        "projr (GroupHeader_toXML hundredths example_groupHeader_v2)"
        example_paymentInfo_v2 initial_globals
        "projr (PaymentInfo_toXML initial_globals hundredths example_paymentInfo_v2)"
        "doc_grpHdr example_document"
        "projr (GroupHeader_toXML hundredths (doc_grpHdr example_document))"
        example_paymentInfo
        "projr (PaymentInfo_toXML initial_globals hundredths example_paymentInfo)"]
  by (simp add: example_renderings example_versions)

text \<open>
  The claim C2 as the specification states it fails under version 3: the group header of
  a \<open>pain.008.001.02\<close> document is rendered with \<open>NbOfTxs\<close> and \<open>CtrlSum\<close>, which the
  payment block carries too, and \<open>Grpg\<close> is neither under the group header nor under the
  payment block.
\<close>

theorem version_gating_counterexample:
  "getPainXMLVersion (gh_painFormat (doc_grpHdr example_document)) = Some 3 \<and>
   map_sum id child_tags (GroupHeader_toXML hundredths (doc_grpHdr example_document))
     = Inr [''MsgId'', ''CreDtTm'', ''NbOfTxs'', ''CtrlSum'', ''InitgPty''] \<and>
   getPainXMLVersion (pi_painFormat example_paymentInfo) = Some 3 \<and>
   map_sum id child_tags (PaymentInfo_toXML initial_globals hundredths example_paymentInfo)
     = Inr [''PmtInfId'', ''PmtMtd'', ''BtchBookg'', ''NbOfTxs'', ''CtrlSum'', ''PmtTpInf'',
            ''ReqdColltnDt'', ''Cdtr'', ''CdtrAcct'', ''CdtrAgt'', ''ChrgBr'', ''CdtrSchmeId'']"
  by code_simp

subsection \<open>Rendering with validation disabled\<close>

lemma filter_tag_nest:
  "filter (\<lambda>c. tag_of c = Some t) (nest (a # as) attrs inner)
   = (if a = t then nest (a # as) attrs inner else [])"
  by (cases as) auto

lemma filter_tag_xml_r:
  "filter (\<lambda>c. tag_of c = Some t) (xml_r (a # as) v) = (if a = t then xml_r (a # as) v else [])"
  by (simp add: xml_r_def createXMLHelper_def filter_tag_nest)

lemma filter_tag_xml_n:
  "filter (\<lambda>c. tag_of c = Some t) (xml_n (a # as) later)
   = (if a = t then xml_n (a # as) later else [])"
  by (simp add: xml_n_def createXMLHelper_def filter_tag_nest)

lemma filter_tag_xml_o:
  "filter (\<lambda>c. tag_of c = Some t) (xml_o (a # as) v) = (if a = t then xml_o (a # as) v else [])"
  by (simp add: xml_o_def createXMLHelper_def filter_tag_nest)

lemma filter_tag_helper:
  "filter (\<lambda>c. tag_of c = Some t) (createXMLHelper True True (a # as) v attrs later)
   = (if a = t then createXMLHelper True True (a # as) v attrs later else [])"
  by (simp add: createXMLHelper_def filter_tag_nest)

lemma Transactions_toXML_filter:
  "Transactions_toXML g ops ts = Inr xs \<Longrightarrow> t \<noteq> ''DrctDbtTxInf'' \<Longrightarrow> t \<noteq> ''CdtTrfTxInf'' \<Longrightarrow>
   filter (\<lambda>c. tag_of c = Some t) xs = []"
proof (induction ts arbitrary: xs)
  case Nil
  then show ?case by simp
next
  case (Cons u us)
  then obtain y ys where y: "Transaction_toXML g ops u = Inr y"
    and ys: "Transactions_toXML g ops us = Inr ys" and xs: "xs = y # ys"
    by (auto split: sum.splits)
  have "tag_of y \<noteq> Some t"
    using Transaction_toXML_tag [OF y] Cons.prems(2,3)
    by (cases "tx_type u") (auto simp: TransactionTypes_name_def)
  then show ?case
    using Cons.IH [OF ys Cons.prems(2,3)] by (simp add: xs)
qed

lemma Transaction_renders:
  assumes "\<not> VALIDATIONS_ENABLED g"
    and "tx_type t = Transfer \<or> (\<exists>s. tx_mandateSignatureDate t = Some (ValidDate s))"
  shows "\<exists>x. Transaction_toXML g ops t = Inr x"
  using assms by (cases "tx_type t") (auto simp: Transaction_toXML_def Let_def toISOString_def)

lemma Transactions_render:
  assumes "\<not> VALIDATIONS_ENABLED g"
    and "\<forall>t \<in> set ts. tx_type t = Transfer \<or> (\<exists>s. tx_mandateSignatureDate t = Some (ValidDate s))"
  shows "\<exists>xs. Transactions_toXML g ops ts = Inr xs"
  using assms(2)
proof (induction ts)
  case Nil
  show ?case by simp
next
  case (Cons t ts)
  then obtain x xs where "Transaction_toXML g ops t = Inr x" "Transactions_toXML g ops ts = Inr xs"
    using Transaction_renders [OF assms(1), of t ops] by auto
  then show ?case by simp
qed

lemma Transaction_DirectDebit_values:
  assumes "\<not> VALIDATIONS_ENABLED g" "tx_type t = DirectDebit"
    "tx_mandateSignatureDate t = Some (ValidDate s)"
  shows "\<exists>x. Transaction_toXML g ops t = Inr x \<and>
           values_at [''InstdAmt''] x = [Str (num_toFixed2 ops (tx_amount t))] \<and>
           values_at [''DbtrAcct'', ''Id'', ''IBAN''] x = [Str (IBAN (tx_debtor t))] \<and>
           (BIC (tx_debtor t) \<noteq> [] \<longrightarrow>
              values_at [''DbtrAgt'', ''FinInstnId'', ''BIC''] x = [Str (BIC (tx_debtor t))])"
  using assms
  apply (simp add: Transaction_toXML_def Let_def toISOString_def tx_pull_def values_at_def
      TransactionTypes_name_def filter_tag_xml_r
      filter_tag_xml_n filter_tag_xml_o filter_tag_helper)
  apply (simp add: xml_r_def xml_n_def xml_o_def createXMLHelper_def List.map_filter_def)
  done


lemma Transaction_Transfer_values:
  assumes "\<not> VALIDATIONS_ENABLED g" "tx_type t = Transfer"
  shows "\<exists>x. Transaction_toXML g ops t = Inr x \<and>
           values_at [''Amt'', ''InstdAmt''] x = [Str (num_toFixed2 ops (tx_amount t))] \<and>
           values_at [''CdtrAcct'', ''Id'', ''IBAN''] x = [Str (IBAN (tx_creditor t))] \<and>
           (BIC (tx_creditor t) \<noteq> [] \<longrightarrow>
              values_at [''CdtrAgt'', ''FinInstnId'', ''BIC''] x = [Str (BIC (tx_creditor t))])"
  using assms
  apply (simp add: Transaction_toXML_def Let_def toISOString_def tx_pull_def values_at_def
      TransactionTypes_name_def filter_tag_xml_r filter_tag_xml_n filter_tag_xml_o
      filter_tag_helper)
  apply (simp add: xml_r_def xml_n_def xml_o_def createXMLHelper_def List.map_filter_def)
  done

lemma PaymentInfo_DirectDebit_values:
  assumes off: "\<not> VALIDATIONS_ENABLED g"
    and dd: "pi_method p = PaymentInfoTypes_DirectDebit"
    and date: "pi_collectionDate p = Some (ValidDate s)"
    and txs: "\<forall>t \<in> set (pi_payments p).
                tx_type t = Transfer \<or> (\<exists>s. tx_mandateSignatureDate t = Some (ValidDate s))"
  shows "\<exists>y. PaymentInfo_toXML g ops p = Inr y \<and>
           values_at [''CdtrAcct'', ''Id'', ''IBAN''] y = [Str (IBAN (pi_creditor p))] \<and>
           (BIC (pi_creditor p) \<noteq> [] \<longrightarrow>
              values_at [''CdtrAgt'', ''FinInstnId'', ''BIC''] y = [Str (BIC (pi_creditor p))])"
proof -
  obtain xs where xs: "Transactions_toXML g ops (pi_payments p) = Inr xs"
    using Transactions_render [OF off txs] by blast
  have f: "filter (\<lambda>c. tag_of c = Some ''CdtrAcct'') xs = []"
    "filter (\<lambda>c. tag_of c = Some ''CdtrAgt'') xs = []"
    by (rule Transactions_toXML_filter [OF xs]; simp)+
  show ?thesis
    using off dd date
    apply (simp add: PaymentInfo_toXML_def Let_def toISOString_def pi_pull_def values_at_def xs f
        filter_tag_xml_r filter_tag_xml_n filter_tag_xml_o)
    apply (simp add: xml_r_def xml_n_def createXMLHelper_def List.map_filter_def)
    done
qed

lemma PaymentInfo_Transfer_values:
  assumes off: "\<not> VALIDATIONS_ENABLED g"
    and dd: "pi_method p \<noteq> PaymentInfoTypes_DirectDebit"
    and date: "pi_requestedExecutionDate p = Some (ValidDate s)"
    and txs: "\<forall>t \<in> set (pi_payments p).
                tx_type t = Transfer \<or> (\<exists>s. tx_mandateSignatureDate t = Some (ValidDate s))"
  shows "\<exists>y. PaymentInfo_toXML g ops p = Inr y \<and>
           values_at [''DbtrAcct'', ''Id'', ''IBAN''] y = [Str (IBAN (pi_debtor p))] \<and>
           (BIC (pi_debtor p) \<noteq> [] \<longrightarrow>
              values_at [''DbtrAgt'', ''FinInstnId'', ''BIC''] y = [Str (BIC (pi_debtor p))])"
proof -
  obtain xs where xs: "Transactions_toXML g ops (pi_payments p) = Inr xs"
    using Transactions_render [OF off txs] by blast
  have f: "filter (\<lambda>c. tag_of c = Some ''DbtrAcct'') xs = []"
    "filter (\<lambda>c. tag_of c = Some ''DbtrAgt'') xs = []"
    by (rule Transactions_toXML_filter [OF xs]; simp)+
  show ?thesis
    using off dd date
    apply (simp add: PaymentInfo_toXML_def Let_def toISOString_def pi_pull_def values_at_def xs f
        filter_tag_xml_r filter_tag_xml_n filter_tag_xml_o)
    apply (simp add: xml_r_def xml_n_def createXMLHelper_def List.map_filter_def)
    done
qed

lemma PaymentInfo_no_transaction_nodes:
  assumes "PaymentInfo_toXML g ops p = Inr y" "pi_payments p = []"
  shows "''DrctDbtTxInf'' \<notin> set (child_tags y) \<and> ''CdtTrfTxInf'' \<notin> set (child_tags y)"
  using PaymentInfo_child_tags [OF assms(1)] assms(2) by simp

text \<open>
  C9. Validation bypass. After \<open>enableValidations(false)\<close> a transaction is rendered
  whatever its amount and its counterparty are, as soon as the date that the rendering
  reads is a valid date (a transfer reads none): the amount node holds
  \<open>amount.toFixed(2)\<close>, the IBAN and BIC nodes hold the IBAN and the BIC as they are. A
  payment block whose own date is valid and whose transactions render is rendered too,
  with the IBAN and the BIC of its counterparty as they are, and with no transaction node
  when it has no transaction.
\<close>

theorem validation_bypass:
  "(tx_type t1 = DirectDebit \<and> tx_mandateSignatureDate t1 = Some (ValidDate s1) \<longrightarrow>
      (\<exists>x. Transaction_toXML (enableValidations False g) ops t1 = Inr x \<and>
           values_at [''InstdAmt''] x = [Str (num_toFixed2 ops (tx_amount t1))] \<and>
           values_at [''DbtrAcct'', ''Id'', ''IBAN''] x = [Str (IBAN (tx_debtor t1))] \<and>
           (BIC (tx_debtor t1) \<noteq> [] \<longrightarrow>
              values_at [''DbtrAgt'', ''FinInstnId'', ''BIC''] x = [Str (BIC (tx_debtor t1))]))) \<and>
   (tx_type t2 = Transfer \<longrightarrow>
      (\<exists>x. Transaction_toXML (enableValidations False g) ops t2 = Inr x \<and>
           values_at [''Amt'', ''InstdAmt''] x = [Str (num_toFixed2 ops (tx_amount t2))] \<and>
           values_at [''CdtrAcct'', ''Id'', ''IBAN''] x = [Str (IBAN (tx_creditor t2))] \<and>
           (BIC (tx_creditor t2) \<noteq> [] \<longrightarrow>
              values_at [''CdtrAgt'', ''FinInstnId'', ''BIC''] x = [Str (BIC (tx_creditor t2))]))) \<and>
   (pi_method p1 = PaymentInfoTypes_DirectDebit \<and> pi_collectionDate p1 = Some (ValidDate d1) \<and>
    (\<forall>t \<in> set (pi_payments p1).
        tx_type t = Transfer \<or> (\<exists>s. tx_mandateSignatureDate t = Some (ValidDate s))) \<longrightarrow>
      (\<exists>y. PaymentInfo_toXML (enableValidations False g) ops p1 = Inr y \<and>
           (pi_payments p1 = [] \<longrightarrow>
              ''DrctDbtTxInf'' \<notin> set (child_tags y) \<and> ''CdtTrfTxInf'' \<notin> set (child_tags y)) \<and>
           values_at [''CdtrAcct'', ''Id'', ''IBAN''] y = [Str (IBAN (pi_creditor p1))] \<and>
           (BIC (pi_creditor p1) \<noteq> [] \<longrightarrow>
              values_at [''CdtrAgt'', ''FinInstnId'', ''BIC''] y = [Str (BIC (pi_creditor p1))]))) \<and>
   (pi_method p2 \<noteq> PaymentInfoTypes_DirectDebit \<and>
    pi_requestedExecutionDate p2 = Some (ValidDate d2) \<and>
    (\<forall>t \<in> set (pi_payments p2).
        tx_type t = Transfer \<or> (\<exists>s. tx_mandateSignatureDate t = Some (ValidDate s))) \<longrightarrow>
      (\<exists>y. PaymentInfo_toXML (enableValidations False g) ops p2 = Inr y \<and>
           (pi_payments p2 = [] \<longrightarrow>
              ''DrctDbtTxInf'' \<notin> set (child_tags y) \<and> ''CdtTrfTxInf'' \<notin> set (child_tags y)) \<and>
           values_at [''DbtrAcct'', ''Id'', ''IBAN''] y = [Str (IBAN (pi_debtor p2))] \<and>
           (BIC (pi_debtor p2) \<noteq> [] \<longrightarrow>
              values_at [''DbtrAgt'', ''FinInstnId'', ''BIC''] y = [Str (BIC (pi_debtor p2))])))"
proof -
  have off: "\<not> VALIDATIONS_ENABLED (enableValidations False g)"
    by (simp add: enableValidations_def)
  show ?thesis
  proof (intro conjI impI)
    assume "tx_type t1 = DirectDebit \<and> tx_mandateSignatureDate t1 = Some (ValidDate s1)"
    then show "\<exists>x. Transaction_toXML (enableValidations False g) ops t1 = Inr x \<and>
           values_at [''InstdAmt''] x = [Str (num_toFixed2 ops (tx_amount t1))] \<and>
           values_at [''DbtrAcct'', ''Id'', ''IBAN''] x = [Str (IBAN (tx_debtor t1))] \<and>
           (BIC (tx_debtor t1) \<noteq> [] \<longrightarrow>
              values_at [''DbtrAgt'', ''FinInstnId'', ''BIC''] x = [Str (BIC (tx_debtor t1))])"
      using Transaction_DirectDebit_values [OF off, of t1 s1 ops] by blast
  next
    assume "tx_type t2 = Transfer"
    then show "\<exists>x. Transaction_toXML (enableValidations False g) ops t2 = Inr x \<and>
           values_at [''Amt'', ''InstdAmt''] x = [Str (num_toFixed2 ops (tx_amount t2))] \<and>
           values_at [''CdtrAcct'', ''Id'', ''IBAN''] x = [Str (IBAN (tx_creditor t2))] \<and>
           (BIC (tx_creditor t2) \<noteq> [] \<longrightarrow>
              values_at [''CdtrAgt'', ''FinInstnId'', ''BIC''] x = [Str (BIC (tx_creditor t2))])"
      using Transaction_Transfer_values [OF off, of t2 ops] by blast
  next
    assume a: "pi_method p1 = PaymentInfoTypes_DirectDebit \<and>
      pi_collectionDate p1 = Some (ValidDate d1) \<and>
      (\<forall>t \<in> set (pi_payments p1).
          tx_type t = Transfer \<or> (\<exists>s. tx_mandateSignatureDate t = Some (ValidDate s)))"
    then obtain y where y: "PaymentInfo_toXML (enableValidations False g) ops p1 = Inr y"
      and v: "values_at [''CdtrAcct'', ''Id'', ''IBAN''] y = [Str (IBAN (pi_creditor p1))]"
        "BIC (pi_creditor p1) \<noteq> [] \<longrightarrow>
           values_at [''CdtrAgt'', ''FinInstnId'', ''BIC''] y = [Str (BIC (pi_creditor p1))]"
      using PaymentInfo_DirectDebit_values [OF off, of p1 d1 ops] by blast
    show "\<exists>y. PaymentInfo_toXML (enableValidations False g) ops p1 = Inr y \<and>
           (pi_payments p1 = [] \<longrightarrow>
              ''DrctDbtTxInf'' \<notin> set (child_tags y) \<and> ''CdtTrfTxInf'' \<notin> set (child_tags y)) \<and>
           values_at [''CdtrAcct'', ''Id'', ''IBAN''] y = [Str (IBAN (pi_creditor p1))] \<and>
           (BIC (pi_creditor p1) \<noteq> [] \<longrightarrow>
              values_at [''CdtrAgt'', ''FinInstnId'', ''BIC''] y = [Str (BIC (pi_creditor p1))])"
      using y v PaymentInfo_no_transaction_nodes [OF y] by blast
  next
    assume a: "pi_method p2 \<noteq> PaymentInfoTypes_DirectDebit \<and>
      pi_requestedExecutionDate p2 = Some (ValidDate d2) \<and>
      (\<forall>t \<in> set (pi_payments p2).
          tx_type t = Transfer \<or> (\<exists>s. tx_mandateSignatureDate t = Some (ValidDate s)))"
    then obtain y where y: "PaymentInfo_toXML (enableValidations False g) ops p2 = Inr y"
      and v: "values_at [''DbtrAcct'', ''Id'', ''IBAN''] y = [Str (IBAN (pi_debtor p2))]"
        "BIC (pi_debtor p2) \<noteq> [] \<longrightarrow>
           values_at [''DbtrAgt'', ''FinInstnId'', ''BIC''] y = [Str (BIC (pi_debtor p2))]"
      using PaymentInfo_Transfer_values [OF off, of p2 d2 ops] by blast
    show "\<exists>y. PaymentInfo_toXML (enableValidations False g) ops p2 = Inr y \<and>
           (pi_payments p2 = [] \<longrightarrow>
              ''DrctDbtTxInf'' \<notin> set (child_tags y) \<and> ''CdtTrfTxInf'' \<notin> set (child_tags y)) \<and>
           values_at [''DbtrAcct'', ''Id'', ''IBAN''] y = [Str (IBAN (pi_debtor p2))] \<and>
           (BIC (pi_debtor p2) \<noteq> [] \<longrightarrow>
              values_at [''DbtrAgt'', ''FinInstnId'', ''BIC''] y = [Str (BIC (pi_debtor p2))])"
      using y v PaymentInfo_no_transaction_nodes [OF y] by blast
  qed
qed

lemma example_bypass_facts:
  "tx_type example_zero_amount = DirectDebit"
  "tx_mandateSignatureDate example_zero_amount = Some (ValidDate ''2014-01-01T00:00:00.000Z'')"
  "tx_type example_zero_transfer = Transfer"
  "pi_method example_mismatch_paymentInfo = PaymentInfoTypes_DirectDebit"
  "pi_collectionDate example_mismatch_paymentInfo = Some (ValidDate ''2014-01-01T00:00:00.000Z'')"
  "pi_payments example_mismatch_paymentInfo = []"
  "pi_method example_mismatch_transfer \<noteq> PaymentInfoTypes_DirectDebit"
  "pi_requestedExecutionDate example_mismatch_transfer = Some (ValidDate ''2014-01-01T00:00:00.000Z'')"
  "pi_payments example_mismatch_transfer = []"
  "num_toFixed2 hundredths (tx_amount example_zero_amount) = ''0.00''"
  "num_toFixed2 hundredths (tx_amount example_zero_transfer) = ''0.00''"
  "IBAN (tx_debtor example_zero_amount) = ''DE87123456781234567890''"
  "BIC (tx_debtor example_zero_amount) = ''ABCDFRPPXXX''"
  "IBAN (tx_creditor example_zero_transfer) = ''DE87123456781234567890''"
  "BIC (tx_creditor example_zero_transfer) = ''ABCDFRPPXXX''"
  "IBAN (pi_creditor example_mismatch_paymentInfo) = ''DE87123456781234567890''"
  "BIC (pi_creditor example_mismatch_paymentInfo) = ''ABCDFRPPXXX''"
  "IBAN (pi_debtor example_mismatch_transfer) = ''DE87123456781234567890''"
  "BIC (pi_debtor example_mismatch_transfer) = ''ABCDFRPPXXX''"
  by code_simp+

theorem validation_bypass_witness:
  "tx_type example_zero_amount = DirectDebit \<and> tx_type example_zero_transfer = Transfer \<and>
   pi_payments example_mismatch_paymentInfo = [] \<and> pi_payments example_mismatch_transfer = [] \<and>
   (\<exists>x. Transaction_toXML (enableValidations False initial_globals) hundredths
           example_zero_amount = Inr x \<and>
        values_at [''InstdAmt''] x = [Str ''0.00''] \<and>
        values_at [''DbtrAgt'', ''FinInstnId'', ''BIC''] x = [Str ''ABCDFRPPXXX'']) \<and>
   (\<exists>x. Transaction_toXML (enableValidations False initial_globals) hundredths
           example_zero_transfer = Inr x \<and>
        values_at [''Amt'', ''InstdAmt''] x = [Str ''0.00'']) \<and>
   (\<exists>y. PaymentInfo_toXML (enableValidations False initial_globals) hundredths
           example_mismatch_paymentInfo = Inr y \<and>
        ''DrctDbtTxInf'' \<notin> set (child_tags y) \<and>
        values_at [''CdtrAcct'', ''Id'', ''IBAN''] y = [Str ''DE87123456781234567890''] \<and>
        values_at [''CdtrAgt'', ''FinInstnId'', ''BIC''] y = [Str ''ABCDFRPPXXX'']) \<and>
   (\<exists>y. PaymentInfo_toXML (enableValidations False initial_globals) hundredths
           example_mismatch_transfer = Inr y \<and>
        ''CdtTrfTxInf'' \<notin> set (child_tags y) \<and>
        values_at [''DbtrAgt'', ''FinInstnId'', ''BIC''] y = [Str ''ABCDFRPPXXX''])"
  using validation_bypass
    [of example_zero_amount "''2014-01-01T00:00:00.000Z''" initial_globals hundredths
        example_zero_transfer example_mismatch_paymentInfo "''2014-01-01T00:00:00.000Z''"
        example_mismatch_transfer "''2014-01-01T00:00:00.000Z''"]
  by (simp add: example_bypass_facts) blast


end
